theory Spec2Isabelle
  imports Main "HOL-Library.Word" "HOL-Library.AList"
begin

section \<open>fastcache: a sharded in-memory cache with TTL and LRU eviction\<close>

text \<open>
  A shallow embedding of \<^verbatim>\<open>cache.go\<close> and of the configuration file of the
  package. One goroutine runs at a time: an operation is a function from the cache to
  an outcome, and the state of every shard's mutex is part of the cache, so that what an
  operation does while it holds a lock can be read off the model.

  \<^item> \<^verbatim>\<open>int64\<close> (sizes, counters, durations, Unix nanoseconds) is \<open>64 word\<close>;
    \<open>+\<close> and \<open>-\<close> wrap as Go's do, comparisons are the signed ones.
  \<^item> \<^verbatim>\<open>int\<close> (the shard count) is \<open>int\<close>. \<open>New\<close> panics on a count that is
    negative or above the longest slice, so the count of a cache is in the range of
    \<^verbatim>\<open>int\<close>; the conversion \<^verbatim>\<open>uint32(ShardCount)\<close> is written out.
  \<^item> \<^verbatim>\<open>time.Now().UnixNano()\<close> is an argument \<open>now\<close> of the operation that
    reads the clock, and \<^verbatim>\<open>time.Now().Add(d).UnixNano()\<close> is \<open>now + d\<close>.
\<close>

subsection \<open>Data\<close>

type_synonym int64 = "64 word"
type_synonym uint32 = "32 word"
type_synonym duration = "64 word"

text \<open>
  The dynamic types that \<^verbatim>\<open>calculateSize\<close> tells apart. \<open>IntV\<close> stands for
  \<^verbatim>\<open>int, int32, int64, uint, uint32, uint64\<close>, \<open>FloatV\<close> (its bits) for
  \<^verbatim>\<open>float32, float64\<close>, and \<open>OtherV\<close> for a value of any other type, for which
  \<^verbatim>\<open>unsafe.Sizeof(v)\<close> is the size of the interface value, 16 bytes on a 64-bit
  platform.
\<close>

datatype val =
    StringV string
  | BytesV "8 word list"
  | IntV int64
  | FloatV int64
  | BoolV bool
  | OtherV nat

text \<open>
  An entry. The field \<^verbatim>\<open>listNode\<close> is not stored: a node of the recency list is
  identified with the key of the entry it carries, so the node of \<open>e\<close> is \<open>key e\<close>.
\<close>

record Entry =
  key :: string
  val :: val
  entry_size :: int64
  expiry :: int64

text \<open>
  A shard. \<open>mu\<close> is true while the mutex is write-locked. \<open>data\<close> is the Go map, as an
  association list; \<open>lruList\<close> is the recency list, front first.
\<close>

record Shard =
  mu :: bool
  data :: "(string \<times> Entry) list"
  lruList :: "string list"
  shard_size :: int64
  hitCount :: int64
  missCount :: int64

record Config =
  MaxMemoryBytes :: int64
  ShardCount :: int
  DefaultTTL :: duration
  CleanupInterval :: duration

record Cache =
  config :: Config
  shards :: "Shard list"
  totalSize :: int64
  totalHits :: int64
  totalMiss :: int64
  closed :: "32 word"
  stopCh_closed :: bool

datatype error = ErrCacheClosed | ErrInvalidConfig string string

datatype panic =
    DivideByZero | IndexOutOfRange | MakeSliceLen | NilDereference | NonPositiveInterval

text \<open>
  What a call does: it returns, it panics, or it blocks for ever on a mutex that the
  calling goroutine itself holds (\<^verbatim>\<open>sync.RWMutex\<close> is not reentrant).
\<close>

datatype 'a outcome = Returns 'a | Panics panic | Blocks

subsection \<open>Configuration\<close>

definition second :: duration where
  "second = 1000000000"

definition minute :: duration where
  "minute = 60 * second"

definition hour :: duration where
  "hour = 60 * minute"

definition DefaultConfig :: Config where
  "DefaultConfig = \<lparr> MaxMemoryBytes = 512 * 1024 * 1024, ShardCount = 1024,
     DefaultTTL = hour, CleanupInterval = minute \<rparr>"

definition HighConcurrencyConfig :: Config where
  "HighConcurrencyConfig = \<lparr> MaxMemoryBytes = 1024 * 1024 * 1024, ShardCount = 2048,
     DefaultTTL = 30 * minute, CleanupInterval = 30 * second \<rparr>"

definition LowMemoryConfig :: Config where
  "LowMemoryConfig = \<lparr> MaxMemoryBytes = 64 * 1024 * 1024, ShardCount = 256,
     DefaultTTL = 15 * minute, CleanupInterval = 30 * second \<rparr>"

definition Validate :: "Config \<Rightarrow> error option" where
  "Validate c =
     (if MaxMemoryBytes c \<le>s 0 then
        Some (ErrInvalidConfig ''MaxMemoryBytes'' ''must be greater than 0'')
      else if ShardCount c \<le> 0 then
        Some (ErrInvalidConfig ''ShardCount'' ''must be greater than 0'')
      else if ShardCount c > 65536 then
        Some (ErrInvalidConfig ''ShardCount'' ''must be less than 65536'')
      else if CleanupInterval c \<le>s 0 then
        Some (ErrInvalidConfig ''CleanupInterval'' ''must be greater than 0'')
      else None)"

subsection \<open>Construction\<close>

definition newShard :: Shard where
  "newShard = \<lparr> mu = False, data = [], lruList = [], shard_size = 0,
     hitCount = 0, missCount = 0 \<rparr>"

text \<open>
  The longest slice of pointers that \<^verbatim>\<open>make\<close> allocates: the runtime panics with
  "makeslice: len out of range" for a negative length and for one whose bytes exceed its
  allocation limit, which is \<open>2 ^ 48\<close> bytes on a 64-bit platform, a pointer taking 8.
\<close>

definition maxSliceLen :: int where
  "maxSliceLen = 2 ^ 45"

text \<open>
  \<^verbatim>\<open>New\<close> takes a pointer, \<open>None\<close> being \<^verbatim>\<open>nil\<close>. It has no error result and does
  not call \<^verbatim>\<open>Validate\<close>. \<^verbatim>\<open>make\<close> panics on a length out of range. The last
  thing \<^verbatim>\<open>New\<close> does is to start the reaper, whose first statement is
  \<^verbatim>\<open>time.NewTicker(c.config.CleanupInterval)\<close>: that panics for an interval that is
  not positive, and a panic in a goroutine ends the process, so no cache is left to use.
  After that the reaper only acts at a tick: its sweep is \<open>cleanupExpired\<close> below.
\<close>

definition New :: "Config option \<Rightarrow> Cache outcome" where
  "New cfg =
     (let config = (case cfg of None \<Rightarrow> DefaultConfig | Some c \<Rightarrow> c) in
      if ShardCount config < 0 \<or> maxSliceLen < ShardCount config then Panics MakeSliceLen
      else if CleanupInterval config \<le>s 0 then Panics NonPositiveInterval
      else Returns \<lparr> config = config,
             shards = replicate (nat (ShardCount config)) newShard,
             totalSize = 0, totalHits = 0, totalMiss = 0, closed = 0,
             stopCh_closed = False \<rparr>)"

subsection \<open>Hashing and shard selection\<close>

text \<open>FNV-1a, 32 bits: offset basis 2166136261, prime 16777619.\<close>

definition hash :: "string \<Rightarrow> uint32" where
  "hash k = fold (\<lambda>b h. (xor h (of_char b)) * 16777619) k 2166136261"

text \<open>
  \<^verbatim>\<open>c.shards[c.hash(key) % uint32(c.config.ShardCount)]\<close>, as the index of the shard:
  the remainder panics on a zero divisor, the indexing on an index past the slice.
\<close>

definition getShard :: "Cache \<Rightarrow> string \<Rightarrow> nat outcome" where
  "getShard c k =
     (let m = (word_of_int (ShardCount (config c)) :: uint32) in
      if m = 0 then Panics DivideByZero
      else let i = unat (hash k mod m) in
        if i < length (shards c) then Returns i else Panics IndexOutOfRange)"

definition calculateSize :: "string \<Rightarrow> val \<Rightarrow> int64" where
  "calculateSize k v =
     of_nat (length k) +
     (case v of
        StringV s \<Rightarrow> of_nat (length s)
      | BytesV bs \<Rightarrow> of_nat (length bs)
      | IntV _ \<Rightarrow> 8
      | FloatV _ \<Rightarrow> 8
      | BoolV _ \<Rightarrow> 1
      | OtherV _ \<Rightarrow> 16)
     + 64"

subsection \<open>Locks and the recency list\<close>

text \<open>
  The mutex of a shard, as seen by the one goroutine that runs: \<^verbatim>\<open>Lock\<close> on a mutex
  that is already write-locked never returns. \<^verbatim>\<open>RLock\<close> is always followed by its
  \<^verbatim>\<open>RUnlock\<close> with no call in between, so the count of readers is not kept.
\<close>

definition Lock :: "Shard \<Rightarrow> Shard outcome" where
  "Lock s = (if mu s then Blocks else Returns (s\<lparr>mu := True\<rparr>))"

definition Unlock :: "Shard \<Rightarrow> Shard" where
  "Unlock s = s\<lparr>mu := False\<rparr>"

definition RLock :: "Shard \<Rightarrow> Shard outcome" where
  "RLock s = (if mu s then Blocks else Returns s)"

text \<open>
  \<^verbatim>\<open>container/list\<close>: \<^verbatim>\<open>PushFront\<close> makes a new node at the front;
  \<^verbatim>\<open>MoveToFront\<close> and \<^verbatim>\<open>Remove\<close> leave the list alone when the node is not one of
  its own.
\<close>

definition PushFront :: "string \<Rightarrow> string list \<Rightarrow> string list" where
  "PushFront n l = n # l"

definition MoveToFront :: "string \<Rightarrow> string list \<Rightarrow> string list" where
  "MoveToFront n l = (if n \<in> set l then n # remove1 n l else l)"

definition Remove :: "string \<Rightarrow> string list \<Rightarrow> string list" where
  "Remove n l = remove1 n l"

definition setShard :: "Cache \<Rightarrow> nat \<Rightarrow> Shard \<Rightarrow> Cache" where
  "setShard c i s = c\<lparr>shards := (shards c)[i := s]\<rparr>"

text \<open>A loop over shard indices that stops at the first call that does not return.\<close>

fun forShards :: "(Cache \<Rightarrow> nat \<Rightarrow> Cache outcome) \<Rightarrow> nat list \<Rightarrow> Cache \<Rightarrow> Cache outcome" where
  "forShards body [] c = Returns c"
| "forShards body (i # rest) c =
     (case body c i of
        Returns c' \<Rightarrow> forShards body rest c'
      | Panics p \<Rightarrow> Panics p
      | Blocks \<Rightarrow> Blocks)"

subsection \<open>Eviction\<close>

text \<open>
  The loop of \<^verbatim>\<open>evictFromShard\<close>, on the shard and the process-wide size.
  \<^verbatim>\<open>oldest.Value.(*Entry)\<close> is the entry indexed under the key of the last node;
  a node whose key is not indexed (no operation makes one) is unlinked and nothing
  else changes.
\<close>

fun evictLoop :: "nat \<Rightarrow> Shard \<times> int64 \<Rightarrow> Shard \<times> int64" where
  "evictLoop 0 st = st"
| "evictLoop (Suc n) (s, tot) =
     (if length (lruList s) > 0 then
        (case map_of (data s) (last (lruList s)) of
           Some entry \<Rightarrow>
             evictLoop n
               (s\<lparr>data := AList.delete (key entry) (data s),
                  lruList := butlast (lruList s),
                  shard_size := shard_size s + - entry_size entry\<rparr>,
                tot + - entry_size entry)
         | None \<Rightarrow> evictLoop n (s\<lparr>lruList := butlast (lruList s)\<rparr>, tot))
      else (s, tot))"

definition evictFromShard :: "Cache \<Rightarrow> nat \<Rightarrow> nat \<Rightarrow> Cache outcome" where
  "evictFromShard c i count =
     (case Lock (shards c ! i) of
        Blocks \<Rightarrow> Blocks
      | Panics p \<Rightarrow> Panics p
      | Returns s \<Rightarrow>
          (case evictLoop count (s, totalSize c) of
             (s', tot') \<Rightarrow> Returns ((setShard c i (Unlock s'))\<lparr>totalSize := tot'\<rparr>)))"

text \<open>Go's integer division, which truncates towards zero.\<close>

definition quo :: "int \<Rightarrow> int \<Rightarrow> int" where
  "quo a b = (if (a < 0) = (b < 0) then \<bar>a\<bar> div \<bar>b\<bar> else - (\<bar>a\<bar> div \<bar>b\<bar>))"

definition shardsToEvict :: "Cache \<Rightarrow> int" where
  "shardsToEvict c =
     (let n = quo (ShardCount (config c)) 4 in if n < 1 then 1 else n)"

definition evictIfNeeded :: "Cache \<Rightarrow> Cache outcome" where
  "evictIfNeeded c =
     (if totalSize c \<le>s MaxMemoryBytes (config c) then Returns c
      else forShards
             (\<lambda>c i. if i < length (shards c) then evictFromShard c i 1
                    else Panics IndexOutOfRange)
             [0 ..< nat (shardsToEvict c)] c)"

subsection \<open>Set, Get, Delete\<close>

definition isExpired :: "Entry \<Rightarrow> int64 \<Rightarrow> bool" where
  "isExpired e now = (0 <s expiry e \<and> expiry e <s now)"

text \<open>The expiry that \<^verbatim>\<open>Set\<close> computes from its variadic \<^verbatim>\<open>ttl\<close>; 0 is "never".\<close>

definition setExpiry :: "Cache \<Rightarrow> duration list \<Rightarrow> int64 \<Rightarrow> int64" where
  "setExpiry c ttl now =
     (if length ttl > 0 \<and> 0 <s hd ttl then now + hd ttl
      else if 0 <s DefaultTTL (config c) then now + DefaultTTL (config c)
      else 0)"

text \<open>
  What \<^verbatim>\<open>Set\<close> does to the locked shard \<open>s\<close> (the shard of index \<open>i\<close>) and to
  the process-wide size: an existing entry is updated in place and its node moved to the
  front, a new entry is pushed to the front and indexed.
\<close>

definition storeEntry :: "Cache \<Rightarrow> nat \<Rightarrow> Shard \<Rightarrow> string \<Rightarrow> val \<Rightarrow> int64 \<Rightarrow> int64 \<Rightarrow> Cache" where
  "storeEntry c i s k v sz ex =
     (case map_of (data s) k of
        Some existing \<Rightarrow>
          (setShard c i
             (s\<lparr>data := AList.update k
                    (existing\<lparr>val := v, entry_size := sz, expiry := ex\<rparr>) (data s),
                lruList := MoveToFront (key existing) (lruList s),
                shard_size := shard_size s + (sz - entry_size existing)\<rparr>))
          \<lparr>totalSize := totalSize c + (sz - entry_size existing)\<rparr>
      | None \<Rightarrow>
          (setShard c i
             (s\<lparr>data := AList.update k
                    \<lparr>key = k, val = v, entry_size = sz, expiry = ex\<rparr> (data s),
                lruList := PushFront k (lruList s),
                shard_size := shard_size s + sz\<rparr>))
          \<lparr>totalSize := totalSize c + sz\<rparr>)"

text \<open>
  \<^verbatim>\<open>Set\<close>. The unlock is deferred: it runs when the function returns, that is
  after \<^verbatim>\<open>evictIfNeeded\<close> has returned, and not at all if that call blocks.
\<close>

definition Set :: "Cache \<Rightarrow> string \<Rightarrow> val \<Rightarrow> duration list \<Rightarrow> int64 \<Rightarrow> (error option \<times> Cache) outcome" where
  "Set c k v ttl now =
     (if closed c = 1 then Returns (Some ErrCacheClosed, c)
      else case getShard c k of
        Panics p \<Rightarrow> Panics p
      | Blocks \<Rightarrow> Blocks
      | Returns i \<Rightarrow>
          (let sz = calculateSize k v; ex = setExpiry c ttl now in
           case Lock (shards c ! i) of
             Panics p \<Rightarrow> Panics p
           | Blocks \<Rightarrow> Blocks
           | Returns s \<Rightarrow>
               (case evictIfNeeded (storeEntry c i s k v sz ex) of
                  Panics p \<Rightarrow> Panics p
                | Blocks \<Rightarrow> Blocks
                | Returns c2 \<Rightarrow>
                    Returns (None, setShard c2 i (Unlock (shards c2 ! i))))))"

definition countMiss :: "Cache \<Rightarrow> nat \<Rightarrow> Cache" where
  "countMiss c i =
     (setShard c i ((shards c ! i)\<lparr>missCount := missCount (shards c ! i) + 1\<rparr>))
     \<lparr>totalMiss := totalMiss c + 1\<rparr>"

definition countHit :: "Cache \<Rightarrow> nat \<Rightarrow> Cache" where
  "countHit c i =
     (setShard c i ((shards c ! i)\<lparr>hitCount := hitCount (shards c ! i) + 1\<rparr>))
     \<lparr>totalHits := totalHits c + 1\<rparr>"

text \<open>
  \<^verbatim>\<open>Get\<close> returns the value (\<open>None\<close> for \<^verbatim>\<open>nil\<close>), the flag, and the key of the
  \<^verbatim>\<open>Delete\<close> that it starts in a goroutine of its own, if it starts one.
\<close>

definition Get :: "Cache \<Rightarrow> string \<Rightarrow> int64 \<Rightarrow> ((val option \<times> bool) \<times> string option \<times> Cache) outcome" where
  "Get c k now =
     (if closed c = 1 then Returns ((None, False), None, c)
      else case getShard c k of
        Panics p \<Rightarrow> Panics p
      | Blocks \<Rightarrow> Blocks
      | Returns i \<Rightarrow>
          (case RLock (shards c ! i) of
             Panics p \<Rightarrow> Panics p
           | Blocks \<Rightarrow> Blocks
           | Returns s \<Rightarrow>
               (case map_of (data s) k of
                  None \<Rightarrow> Returns ((None, False), None, countMiss c i)
                | Some entry \<Rightarrow>
                    if isExpired entry now then
                      Returns ((None, False), Some k, countMiss c i)
                    else
                      (case Lock s of
                         Panics p \<Rightarrow> Panics p
                       | Blocks \<Rightarrow> Blocks
                       | Returns s1 \<Rightarrow>
                           Returns ((Some (val entry), True), None,
                             countHit
                               (setShard c i
                                  (Unlock (s1\<lparr>lruList := MoveToFront (key entry) (lruList s1)\<rparr>)))
                               i)))))"

definition Delete :: "Cache \<Rightarrow> string \<Rightarrow> (bool \<times> Cache) outcome" where
  "Delete c k =
     (if closed c = 1 then Returns (False, c)
      else case getShard c k of
        Panics p \<Rightarrow> Panics p
      | Blocks \<Rightarrow> Blocks
      | Returns i \<Rightarrow>
          (case Lock (shards c ! i) of
             Panics p \<Rightarrow> Panics p
           | Blocks \<Rightarrow> Blocks
           | Returns s \<Rightarrow>
               (case map_of (data s) k of
                  None \<Rightarrow> Returns (False, setShard c i (Unlock s))
                | Some entry \<Rightarrow>
                    Returns (True,
                      (setShard c i
                         (Unlock (s\<lparr>data := AList.delete k (data s),
                                    lruList := Remove (key entry) (lruList s),
                                    shard_size := shard_size s + - entry_size entry\<rparr>)))
                      \<lparr>totalSize := totalSize c + - entry_size entry\<rparr>))))"

subsection \<open>The reaper's sweep, Clear, Close\<close>

text \<open>
  The second loop of \<^verbatim>\<open>cleanupExpired\<close>: \<^verbatim>\<open>shard.data[key]\<close> is \<^verbatim>\<open>nil\<close> for a
  key that is not indexed, and reading a field of it panics.
\<close>

fun removeKeys :: "string list \<Rightarrow> Shard \<times> int64 \<Rightarrow> (Shard \<times> int64) outcome" where
  "removeKeys [] st = Returns st"
| "removeKeys (k # ks) (s, tot) =
     (case map_of (data s) k of
        None \<Rightarrow> Panics NilDereference
      | Some entry \<Rightarrow>
          removeKeys ks
            (s\<lparr>data := AList.delete k (data s),
               lruList := Remove (key entry) (lruList s),
               shard_size := shard_size s + - entry_size entry\<rparr>,
             tot + - entry_size entry))"

definition expiredKeys :: "Shard \<Rightarrow> int64 \<Rightarrow> string list" where
  "expiredKeys s now =
     map fst (filter (\<lambda>(k, entry). 0 <s expiry entry \<and> expiry entry <s now) (data s))"

definition cleanupShard :: "int64 \<Rightarrow> Cache \<Rightarrow> nat \<Rightarrow> Cache outcome" where
  "cleanupShard now c i =
     (case Lock (shards c ! i) of
        Panics p \<Rightarrow> Panics p
      | Blocks \<Rightarrow> Blocks
      | Returns s \<Rightarrow>
          (case removeKeys (expiredKeys s now) (s, totalSize c) of
             Panics p \<Rightarrow> Panics p
           | Blocks \<Rightarrow> Blocks
           | Returns (s', tot') \<Rightarrow>
               Returns ((setShard c i (Unlock s'))\<lparr>totalSize := tot'\<rparr>)))"

definition cleanupExpired :: "Cache \<Rightarrow> int64 \<Rightarrow> Cache outcome" where
  "cleanupExpired c now = forShards (cleanupShard now) [0 ..< length (shards c)] c"

definition clearShard :: "Cache \<Rightarrow> nat \<Rightarrow> Cache outcome" where
  "clearShard c i =
     (case Lock (shards c ! i) of
        Panics p \<Rightarrow> Panics p
      | Blocks \<Rightarrow> Blocks
      | Returns s \<Rightarrow>
          Returns (setShard c i (Unlock (s\<lparr>data := [], lruList := [], shard_size := 0\<rparr>))))"

definition Clear :: "Cache \<Rightarrow> Cache outcome" where
  "Clear c =
     (case forShards clearShard [0 ..< length (shards c)] c of
        Panics p \<Rightarrow> Panics p
      | Blocks \<Rightarrow> Blocks
      | Returns c' \<Rightarrow> Returns (c'\<lparr>totalSize := 0\<rparr>))"

text \<open>
  \<^verbatim>\<open>Close\<close>: the compare-and-swap of \<open>closed\<close> from 0 to 1, then the stop channel is
  closed. The wait for the reaper is not modelled: the reaper leaves its loop at the
  closed channel.
\<close>

definition Close :: "Cache \<Rightarrow> error option \<times> Cache" where
  "Close c =
     (if closed c = 0 then (None, c\<lparr>closed := 1, stopCh_closed := True\<rparr>)
      else (Some ErrCacheClosed, c))"

subsection \<open>Runs\<close>

text \<open>
  The operations, with the clock reading of those that read the clock. \<open>SweepOp\<close> is a
  tick of the reaper; \<open>EvictOp\<close> is the eviction check run on its own (it is also the
  last step of every \<^verbatim>\<open>Set\<close>). A run stops at the first call that does not return.
\<close>

datatype op =
    SetOp string val "duration list" int64
  | GetOp string int64
  | DeleteOp string
  | ClearOp
  | CloseOp
  | SweepOp int64
  | EvictOp

fun step :: "Cache \<Rightarrow> op \<Rightarrow> Cache outcome" where
  "step c (SetOp k v ttl now) =
     (case Set c k v ttl now of
        Returns (e, c') \<Rightarrow> Returns c' | Panics p \<Rightarrow> Panics p | Blocks \<Rightarrow> Blocks)"
| "step c (GetOp k now) =
     (case Get c k now of
        Returns (r, spawned, c') \<Rightarrow> Returns c' | Panics p \<Rightarrow> Panics p | Blocks \<Rightarrow> Blocks)"
| "step c (DeleteOp k) =
     (case Delete c k of
        Returns (b, c') \<Rightarrow> Returns c' | Panics p \<Rightarrow> Panics p | Blocks \<Rightarrow> Blocks)"
| "step c ClearOp = Clear c"
| "step c CloseOp = Returns (snd (Close c))"
| "step c (SweepOp now) = cleanupExpired c now"
| "step c EvictOp = evictIfNeeded c"

fun run :: "Cache \<Rightarrow> op list \<Rightarrow> Cache outcome" where
  "run c [] = Returns c"
| "run c (x # xs) =
     (case step c x of
        Returns c' \<Rightarrow> run c' xs | Panics p \<Rightarrow> Panics p | Blocks \<Rightarrow> Blocks)"

subsection \<open>Invariants\<close>

text \<open>
  The shape of a shard: the keys of the index are distinct (it is a map), every entry is
  indexed under its own key, and the recency list holds each indexed key once.
\<close>

definition shard_wf :: "Shard \<Rightarrow> bool" where
  "shard_wf s \<longleftrightarrow>
     distinct (map fst (data s)) \<and> distinct (lruList s) \<and>
     set (lruList s) = fst ` set (data s) \<and>
     (\<forall>(k, e) \<in> set (data s). key e = k)"

text \<open>P1: the size of a shard is the sum of the sizes of its entries.\<close>

definition shard_accounted :: "Shard \<Rightarrow> bool" where
  "shard_accounted s \<longleftrightarrow> shard_size s = (\<Sum>(k, e)\<leftarrow>data s. entry_size e)"

text \<open>P2: the process-wide size is the sum of the sizes of the shards.\<close>

definition total_accounted :: "Cache \<Rightarrow> bool" where
  "total_accounted c \<longleftrightarrow> totalSize c = (\<Sum>s\<leftarrow>shards c. shard_size s)"

definition accounted :: "Cache \<Rightarrow> bool" where
  "accounted c \<longleftrightarrow>
     (\<forall>s \<in> set (shards c). shard_wf s \<and> shard_accounted s) \<and> total_accounted c"

text \<open>No operation is in flight: no mutex is held.\<close>

definition quiescent :: "Cache \<Rightarrow> bool" where
  "quiescent c \<longleftrightarrow> (\<forall>s \<in> set (shards c). \<not> mu s)"

section \<open>Configuration and construction\<close>

lemma Validate_None_iff:
  "Validate c = None \<longleftrightarrow>
     0 <s MaxMemoryBytes c \<and> 1 \<le> ShardCount c \<and> ShardCount c \<le> 65536 \<and> 0 <s CleanupInterval c"
  by (auto simp: Validate_def word_sless_eq)

text \<open>
  C1, as the code has it. \<^verbatim>\<open>Config.Validate\<close> accepts a configuration exactly when
  \<open>MaxMemoryBytes > 0\<close>, \<open>1 \<le> ShardCount \<le> 65536\<close> and \<open>CleanupInterval > 0\<close>; the
  default TTL is not looked at. When it rejects, the error is an \<^verbatim>\<open>ErrInvalidConfig\<close>
  whose field names a constraint that is violated. \<^verbatim>\<open>New\<close> constructs a cache for
  every configuration that \<^verbatim>\<open>Validate\<close> accepts.
\<close>

theorem Validate_names_offending_field:
  "(Validate c = None \<longleftrightarrow>
      0 <s MaxMemoryBytes c \<and> 1 \<le> ShardCount c \<and> ShardCount c \<le> 65536 \<and>
      0 <s CleanupInterval c) \<and>
   (\<forall>e. Validate c = Some e \<longrightarrow>
      (\<exists>f m. e = ErrInvalidConfig f m \<and>
         (f = ''MaxMemoryBytes'' \<and> \<not> 0 <s MaxMemoryBytes c \<or>
          f = ''ShardCount'' \<and> \<not> (1 \<le> ShardCount c \<and> ShardCount c \<le> 65536) \<or>
          f = ''CleanupInterval'' \<and> \<not> 0 <s CleanupInterval c))) \<and>
   (Validate c = None \<longrightarrow>
      New (Some c) = Returns \<lparr> config = c,
        shards = replicate (nat (ShardCount c)) newShard,
        totalSize = 0, totalHits = 0, totalMiss = 0, closed = 0, stopCh_closed = False \<rparr>)"
proof (intro conjI)
  show "Validate c = None \<longleftrightarrow>
      0 <s MaxMemoryBytes c \<and> 1 \<le> ShardCount c \<and> ShardCount c \<le> 65536 \<and>
      0 <s CleanupInterval c"
    by (rule Validate_None_iff)
  show "\<forall>e. Validate c = Some e \<longrightarrow>
      (\<exists>f m. e = ErrInvalidConfig f m \<and>
         (f = ''MaxMemoryBytes'' \<and> \<not> 0 <s MaxMemoryBytes c \<or>
          f = ''ShardCount'' \<and> \<not> (1 \<le> ShardCount c \<and> ShardCount c \<le> 65536) \<or>
          f = ''CleanupInterval'' \<and> \<not> 0 <s CleanupInterval c))"
    by (auto simp: Validate_def word_sless_eq split: if_splits)
  show "Validate c = None \<longrightarrow>
      New (Some c) = Returns \<lparr> config = c,
        shards = replicate (nat (ShardCount c)) newShard,
        totalSize = 0, totalHits = 0, totalMiss = 0, closed = 0, stopCh_closed = False \<rparr>"
    by (auto simp: Validate_None_iff New_def maxSliceLen_def word_sless_eq)
qed

theorem Validate_names_offending_field_witness:
  "Validate DefaultConfig = None \<and>
   New (Some DefaultConfig) = Returns \<lparr> config = DefaultConfig,
     shards = replicate 1024 newShard,
     totalSize = 0, totalHits = 0, totalMiss = 0, closed = 0, stopCh_closed = False \<rparr> \<and>
   Validate \<lparr> MaxMemoryBytes = 1048576, ShardCount = 0, DefaultTTL = 0,
              CleanupInterval = minute \<rparr>
     = Some (ErrInvalidConfig ''ShardCount'' ''must be greater than 0'')"
proof -
  have ok: "0 <s MaxMemoryBytes DefaultConfig \<and> 1 \<le> ShardCount DefaultConfig \<and>
            ShardCount DefaultConfig \<le> 65536 \<and> 0 <s CleanupInterval DefaultConfig"
    by (simp add: DefaultConfig_def minute_def second_def word_sless_alt)
  have v: "Validate DefaultConfig = None"
    using Validate_names_offending_field [of DefaultConfig] ok by blast
  have n: "New (Some DefaultConfig) = Returns \<lparr> config = DefaultConfig,
     shards = replicate (nat (ShardCount DefaultConfig)) newShard,
     totalSize = 0, totalHits = 0, totalMiss = 0, closed = 0, stopCh_closed = False \<rparr>"
    using Validate_names_offending_field [of DefaultConfig] v by blast
  have b: "Validate \<lparr> MaxMemoryBytes = 1048576, ShardCount = 0, DefaultTTL = 0,
              CleanupInterval = minute \<rparr>
     = Some (ErrInvalidConfig ''ShardCount'' ''must be greater than 0'')"
    by (simp add: Validate_def word_sle_eq)
  from v n b show ?thesis by (simp add: DefaultConfig_def)
qed

text \<open>
  C1 as stated fails twice. \<^verbatim>\<open>New\<close> does not validate: a configuration whose memory
  budget is 0, and is otherwise in range, is constructed and no error is reported. And
  no check rejects a negative default TTL: \<^verbatim>\<open>Validate\<close> accepts it.
\<close>

theorem New_does_not_validate_counterexample:
  "New (Some \<lparr> MaxMemoryBytes = 0, ShardCount = 2, DefaultTTL = 0,
               CleanupInterval = 1000000000 \<rparr>)
     = Returns \<lparr> config = \<lparr> MaxMemoryBytes = 0, ShardCount = 2, DefaultTTL = 0,
                              CleanupInterval = 1000000000 \<rparr>,
                 shards = [newShard, newShard],
                 totalSize = 0, totalHits = 0, totalMiss = 0, closed = 0,
                 stopCh_closed = False \<rparr> \<and>
   \<not> (0 :: int64) <s 0 \<and>
   Validate \<lparr> MaxMemoryBytes = 1024, ShardCount = 2, DefaultTTL = - 1,
              CleanupInterval = 1000 \<rparr> = None \<and>
   (- 1 :: duration) <s 0"
  by (simp add: New_def maxSliceLen_def Validate_def numeral_2_eq_2 word_sle_eq word_sless_alt)

section \<open>A closed cache\<close>

text \<open>
  C10. On a closed cache \<^verbatim>\<open>Set\<close> returns \<^verbatim>\<open>ErrCacheClosed\<close>, \<^verbatim>\<open>Get\<close> returns
  \<^verbatim>\<open>(nil, false)\<close> and starts no goroutine, \<^verbatim>\<open>Delete\<close> returns \<^verbatim>\<open>false\<close>, and
  each of them leaves the whole cache as it was: entries, recency lists, shard sizes,
  the process-wide size and every hit and miss counter, so that no miss is counted.
\<close>

theorem closed_operations_change_nothing:
  "closed c = 1 \<Longrightarrow>
     Set c k v ttl now = Returns (Some ErrCacheClosed, c) \<and>
     Get c k now = Returns ((None, False), None, c) \<and>
     Delete c k = Returns (False, c)"
  by (simp add: Set_def Get_def Delete_def)

theorem closed_operations_change_nothing_witness:
  "closed (snd (Close \<lparr> config = DefaultConfig, shards = [newShard],
       totalSize = 0, totalHits = 0, totalMiss = 0, closed = 0, stopCh_closed = False \<rparr>)) = 1 \<and>
   Get (snd (Close \<lparr> config = DefaultConfig, shards = [newShard],
       totalSize = 0, totalHits = 0, totalMiss = 0, closed = 0, stopCh_closed = False \<rparr>))
     ''key'' 7
   = Returns ((None, False), None,
       \<lparr> config = DefaultConfig, shards = [newShard],
         totalSize = 0, totalHits = 0, totalMiss = 0, closed = 1, stopCh_closed = True \<rparr>)"
proof -
  let ?c = "snd (Close \<lparr> config = DefaultConfig, shards = [newShard],
       totalSize = 0, totalHits = 0, totalMiss = 0, closed = 0, stopCh_closed = False \<rparr>)"
  have h: "closed ?c = 1" by (simp add: Close_def)
  from closed_operations_change_nothing [OF h, of "''key''" _ _ 7] h
  show ?thesis by (simp add: Close_def)
qed

section \<open>Loops over shards\<close>

lemma forShards_preserves:
  assumes "\<And>c i c'. i \<in> set js \<Longrightarrow> P c \<Longrightarrow> body c i = Returns c' \<Longrightarrow> P c'"
  shows "P c \<Longrightarrow> forShards body js c = Returns c' \<Longrightarrow> P c'"
  using assms
proof (induction js arbitrary: c)
  case Nil
  then show ?case by simp
next
  case (Cons i rest)
  from Cons.prems(2) obtain c1 where b: "body c i = Returns c1"
    and r: "forShards body rest c1 = Returns c'"
    by (auto split: outcome.splits)
  have "P c1" using Cons.prems(1,3) b by auto
  with r Cons.IH Cons.prems(3) show ?case by auto
qed

lemma forShards_local:
  assumes body: "\<And>c i. i < length (shards c) \<Longrightarrow>
     body c i = (if mu (shards c ! i) then Blocks
                 else Returns ((setShard c i (g (shards c ! i)))
                        \<lparr>totalSize := totalSize c + d (shards c ! i)\<rparr>))"
  shows "distinct js \<Longrightarrow> \<forall>i\<in>set js. i < length (shards c) \<Longrightarrow>
     forShards body js c =
       (if \<exists>i\<in>set js. mu (shards c ! i) then Blocks
        else Returns (c\<lparr>shards := map (\<lambda>j. if j \<in> set js then g (shards c ! j) else shards c ! j)
                                   [0 ..< length (shards c)],
                         totalSize := totalSize c + (\<Sum>i\<leftarrow>js. d (shards c ! i))\<rparr>))"
proof (induction js arbitrary: c)
  case Nil
  then show ?case by (simp add: map_nth)
next
  case (Cons i rest)
  have il: "i < length (shards c)" using Cons.prems by simp
  show ?case
  proof (cases "mu (shards c ! i)")
    case True
    then show ?thesis using body [OF il] by simp
  next
    case False
    define c1 where "c1 = (setShard c i (g (shards c ! i)))\<lparr>totalSize := totalSize c + d (shards c ! i)\<rparr>"
    have b: "body c i = Returns c1" using body [OF il] False by (simp add: c1_def)
    have len: "length (shards c1) = length (shards c)" by (simp add: c1_def setShard_def)
    have self: "shards c1 ! i = g (shards c ! i)"
      using il by (simp add: c1_def setShard_def)
    have nth: "\<And>j. j \<noteq> i \<Longrightarrow> shards c1 ! j = shards c ! j"
      by (simp add: c1_def setShard_def)
    have other: "\<And>j. j \<in> set rest \<Longrightarrow> shards c1 ! j = shards c ! j"
      using Cons.prems(1) nth by (metis distinct.simps(2))
    have ih: "forShards body rest c1 =
       (if \<exists>i\<in>set rest. mu (shards c1 ! i) then Blocks
        else Returns (c1\<lparr>shards := map (\<lambda>j. if j \<in> set rest then g (shards c1 ! j) else shards c1 ! j)
                                   [0 ..< length (shards c1)],
                         totalSize := totalSize c1 + (\<Sum>i\<leftarrow>rest. d (shards c1 ! i))\<rparr>))"
      using Cons.IH [of c1] Cons.prems len by simp
    have mu_eq: "(\<exists>j\<in>set rest. mu (shards c1 ! j)) = (\<exists>j\<in>set (i # rest). mu (shards c ! j))"
      using other False by auto
    have sh: "map (\<lambda>j. if j \<in> set rest then g (shards c1 ! j) else shards c1 ! j) [0 ..< length (shards c1)]
            = map (\<lambda>j. if j \<in> set (i # rest) then g (shards c ! j) else shards c ! j) [0 ..< length (shards c)]"
      unfolding len
    proof (rule map_cong [OF refl])
      fix j assume "j \<in> set [0 ..< length (shards c)]"
      show "(if j \<in> set rest then g (shards c1 ! j) else shards c1 ! j)
          = (if j \<in> set (i # rest) then g (shards c ! j) else shards c ! j)"
        using other self nth Cons.prems(1) by (cases "j = i") auto
    qed
    have sm: "(\<Sum>i\<leftarrow>rest. d (shards c1 ! i)) = (\<Sum>i\<leftarrow>rest. d (shards c ! i))"
      using other by (auto intro: arg_cong [where f = sum_list] map_cong)
    have tot: "totalSize c1 = totalSize c + d (shards c ! i)" by (simp add: c1_def)
    show ?thesis
      using b ih unfolding mu_eq sh sm tot
      by (simp add: c1_def setShard_def add.assoc)
  qed
qed

section \<open>What the loops leave alone\<close>

text \<open>The fields that no loop body touches.\<close>

lemma evictLoop_split:
  "evictLoop n (s, t) = (fst (evictLoop n (s, 0)), t + snd (evictLoop n (s, 0)))"
proof (induction n arbitrary: s t)
  case 0
  then show ?case by simp
next
  case (Suc n)
  show ?case
  proof (cases "lruList s = []")
    case True
    then show ?thesis by simp
  next
    case False
    show ?thesis
    proof (cases "map_of (data s) (last (lruList s))")
      case None
      with False Suc.IH [of "s\<lparr>lruList := butlast (lruList s)\<rparr>" t] show ?thesis by simp
    next
      case (Some e)
      let ?s = "s\<lparr>data := AList.delete (key e) (data s), lruList := butlast (lruList s),
                  shard_size := shard_size s + - entry_size e\<rparr>"
      from Suc.IH [of ?s "t + - entry_size e"] Suc.IH [of ?s "- entry_size e"] False Some
      show ?thesis by (simp add: add.assoc)
    qed
  qed
qed

lemma evictLoop_frame:
  "evictLoop n (s, t) = (s', t') \<Longrightarrow>
     mu s' = mu s \<and> hitCount s' = hitCount s \<and> missCount s' = missCount s"
proof (induction n arbitrary: s t)
  case 0
  then show ?case by auto
next
  case (Suc n)
  show ?case
  proof (cases "lruList s = []")
    case True
    with Suc.prems show ?thesis by auto
  next
    case False
    show ?thesis
    proof (cases "map_of (data s) (last (lruList s))")
      case None
      with False Suc.prems Suc.IH [of "s\<lparr>lruList := butlast (lruList s)\<rparr>" t] show ?thesis by simp
    next
      case (Some e)
      with False Suc.prems
        Suc.IH [of "s\<lparr>data := AList.delete (key e) (data s), lruList := butlast (lruList s),
                  shard_size := shard_size s + - entry_size e\<rparr>" "t + - entry_size e"]
      show ?thesis by simp
    qed
  qed
qed

lemma evictFromShard_eq:
  "evictFromShard c i n =
     (if mu (shards c ! i) then Blocks
      else Returns ((setShard c i (Unlock (fst (evictLoop n (Unlock (shards c ! i)\<lparr>mu := True\<rparr>, 0)))))
             \<lparr>totalSize := totalSize c + snd (evictLoop n (Unlock (shards c ! i)\<lparr>mu := True\<rparr>, 0))\<rparr>))"
proof -
  have "evictLoop n ((shards c ! i)\<lparr>mu := True\<rparr>, totalSize c)
      = (fst (evictLoop n ((shards c ! i)\<lparr>mu := True\<rparr>, 0)),
         totalSize c + snd (evictLoop n ((shards c ! i)\<lparr>mu := True\<rparr>, 0)))"
    by (rule evictLoop_split)
  then show ?thesis
    by (simp add: evictFromShard_def Lock_def Unlock_def)
qed

lemma evictFromShard_frame:
  "evictFromShard c i n = Returns c' \<Longrightarrow>
     config c' = config c \<and> closed c' = closed c \<and> stopCh_closed c' = stopCh_closed c \<and>
     totalHits c' = totalHits c \<and> totalMiss c' = totalMiss c \<and>
     length (shards c') = length (shards c)"
  by (auto simp: evictFromShard_eq setShard_def split: if_splits)

lemma evictIfNeeded_frame:
  assumes "evictIfNeeded c = Returns c'"
  shows "config c' = config c \<and> closed c' = closed c \<and> stopCh_closed c' = stopCh_closed c \<and>
     totalHits c' = totalHits c \<and> totalMiss c' = totalMiss c \<and>
     length (shards c') = length (shards c)"
proof (cases "totalSize c \<le>s MaxMemoryBytes (config c)")
  case True
  with assms show ?thesis by (simp add: evictIfNeeded_def)
next
  case False
  let ?P = "\<lambda>x. config x = config c \<and> closed x = closed c \<and> stopCh_closed x = stopCh_closed c \<and>
     totalHits x = totalHits c \<and> totalMiss x = totalMiss c \<and>
     length (shards x) = length (shards c)"
  from False assms have r: "forShards
             (\<lambda>c i. if i < length (shards c) then evictFromShard c i 1
                    else Panics IndexOutOfRange)
             [0 ..< nat (shardsToEvict c)] c = Returns c'"
    by (simp add: evictIfNeeded_def)
  have "?P c'"
  proof (rule forShards_preserves [where P = ?P, OF _ _ r])
    show "?P c" by simp
  next
    fix x i x'
    assume "?P x"
      and "(if i < length (shards x) then evictFromShard x i 1 else Panics IndexOutOfRange) = Returns x'"
    then show "?P x'"
      using evictFromShard_frame [of x i 1 x'] by (auto split: if_splits)
  qed
  then show ?thesis .
qed

lemma clearShard_eq:
  "clearShard c i =
     (if mu (shards c ! i) then Blocks
      else Returns ((setShard c i
                       ((shards c ! i)\<lparr>data := [], lruList := [], shard_size := 0, mu := False\<rparr>))
             \<lparr>totalSize := totalSize c + 0\<rparr>))"
  by (simp add: clearShard_def Lock_def Unlock_def setShard_def)

lemma Clear_eq:
  "Clear c =
     (if \<exists>s \<in> set (shards c). mu s then Blocks
      else Returns (c\<lparr>shards := map (\<lambda>s. s\<lparr>data := [], lruList := [], shard_size := 0, mu := False\<rparr>)
                                   (shards c),
                      totalSize := 0\<rparr>))"
proof -
  have m: "map (\<lambda>j. if j \<in> set [0 ..< length (shards c)]
                    then (shards c ! j)\<lparr>data := [], lruList := [], shard_size := 0, mu := False\<rparr>
                    else shards c ! j) [0 ..< length (shards c)]
         = map (\<lambda>s. s\<lparr>data := [], lruList := [], shard_size := 0, mu := False\<rparr>) (shards c)"
    by (rule nth_equalityI) auto
  have e: "(\<exists>i\<in>set [0 ..< length (shards c)]. mu (shards c ! i)) = (\<exists>s \<in> set (shards c). mu s)"
    by (force simp: in_set_conv_nth)
  have "forShards clearShard [0 ..< length (shards c)] c =
       (if \<exists>i\<in>set [0 ..< length (shards c)]. mu (shards c ! i) then Blocks
        else Returns (c\<lparr>shards := map (\<lambda>j. if j \<in> set [0 ..< length (shards c)]
                    then (shards c ! j)\<lparr>data := [], lruList := [], shard_size := 0, mu := False\<rparr>
                    else shards c ! j) [0 ..< length (shards c)],
                         totalSize := totalSize c + (\<Sum>i\<leftarrow>[0 ..< length (shards c)]. 0)\<rparr>))"
    by (rule forShards_local [where g = "\<lambda>s. s\<lparr>data := [], lruList := [], shard_size := 0, mu := False\<rparr>"
          and d = "\<lambda>s. 0"]) (simp_all add: clearShard_eq)
  then show ?thesis
    unfolding m e by (simp add: Clear_def)
qed

text \<open>
  C9. When no mutex is held, \<^verbatim>\<open>Clear\<close> returns, and the cache it leaves differs from
  the one it found in this only: the index and the recency list of every shard are
  empty, the size of every shard is 0, and the process-wide size is 0. The hit and miss
  counters of every shard and the two process-wide counters are as they were.
\<close>

theorem Clear_empties_and_keeps_counters:
  "quiescent c \<Longrightarrow>
     \<exists>c'. Clear c = Returns c' \<and>
       length (shards c') = length (shards c) \<and>
       (\<forall>i < length (shards c).
          data (shards c' ! i) = [] \<and> lruList (shards c' ! i) = [] \<and>
          shard_size (shards c' ! i) = 0 \<and>
          hitCount (shards c' ! i) = hitCount (shards c ! i) \<and>
          missCount (shards c' ! i) = missCount (shards c ! i) \<and>
          mu (shards c' ! i) = mu (shards c ! i)) \<and>
       totalSize c' = 0 \<and>
       totalHits c' = totalHits c \<and> totalMiss c' = totalMiss c \<and>
       config c' = config c \<and> closed c' = closed c \<and> stopCh_closed c' = stopCh_closed c"
  by (simp add: Clear_eq quiescent_def)

theorem Clear_empties_and_keeps_counters_witness:
  "quiescent \<lparr> config = DefaultConfig,
       shards = [\<lparr> mu = False,
                   data = [(''a'', \<lparr> key = ''a'', val = StringV ''x'', entry_size = 66, expiry = 0 \<rparr>)],
                   lruList = [''a''], shard_size = 66, hitCount = 3, missCount = 1 \<rparr>,
                 newShard],
       totalSize = 66, totalHits = 3, totalMiss = 1, closed = 0, stopCh_closed = False \<rparr> \<and>
   Clear \<lparr> config = DefaultConfig,
       shards = [\<lparr> mu = False,
                   data = [(''a'', \<lparr> key = ''a'', val = StringV ''x'', entry_size = 66, expiry = 0 \<rparr>)],
                   lruList = [''a''], shard_size = 66, hitCount = 3, missCount = 1 \<rparr>,
                 newShard],
       totalSize = 66, totalHits = 3, totalMiss = 1, closed = 0, stopCh_closed = False \<rparr>
   = Returns \<lparr> config = DefaultConfig,
       shards = [\<lparr> mu = False, data = [], lruList = [], shard_size = 0,
                   hitCount = 3, missCount = 1 \<rparr>,
                 newShard],
       totalSize = 0, totalHits = 3, totalMiss = 1, closed = 0, stopCh_closed = False \<rparr>"
proof -
  let ?c = "\<lparr> config = DefaultConfig,
       shards = [\<lparr> mu = False,
                   data = [(''a'', \<lparr> key = ''a'', val = StringV ''x'', entry_size = 66, expiry = 0 \<rparr>)],
                   lruList = [''a''], shard_size = 66, hitCount = 3, missCount = 1 \<rparr>,
                 newShard],
       totalSize = 66, totalHits = 3, totalMiss = 1, closed = 0, stopCh_closed = False \<rparr>"
  have q: "quiescent ?c" by (simp add: quiescent_def newShard_def)
  from Clear_empties_and_keeps_counters [OF q] obtain c' where
    "Clear ?c = Returns c'" "totalSize c' = 0" by blast
  then show ?thesis using q by (simp add: Clear_eq newShard_def)
qed

section \<open>Close\<close>

lemma clearShard_closed: "clearShard c i = Returns c' \<Longrightarrow> closed c' = closed c"
  by (auto simp: clearShard_eq setShard_def split: if_splits)

lemma Clear_closed: "Clear c = Returns c' \<Longrightarrow> closed c' = closed c"
  by (auto simp: Clear_eq split: if_splits)

lemma cleanupShard_frame:
  "cleanupShard now c i = Returns c' \<Longrightarrow>
     config c' = config c \<and> closed c' = closed c \<and> stopCh_closed c' = stopCh_closed c \<and>
     totalHits c' = totalHits c \<and> totalMiss c' = totalMiss c \<and>
     length (shards c') = length (shards c)"
  by (auto simp: cleanupShard_def setShard_def split: outcome.splits)

lemma cleanupExpired_frame:
  assumes "cleanupExpired c now = Returns c'"
  shows "config c' = config c \<and> closed c' = closed c \<and> stopCh_closed c' = stopCh_closed c \<and>
     totalHits c' = totalHits c \<and> totalMiss c' = totalMiss c \<and>
     length (shards c') = length (shards c)"
proof -
  let ?P = "\<lambda>x. config x = config c \<and> closed x = closed c \<and> stopCh_closed x = stopCh_closed c \<and>
     totalHits x = totalHits c \<and> totalMiss x = totalMiss c \<and>
     length (shards x) = length (shards c)"
  from assms have r: "forShards (cleanupShard now) [0 ..< length (shards c)] c = Returns c'"
    by (simp add: cleanupExpired_def)
  have "?P c'"
  proof (rule forShards_preserves [where P = ?P, OF _ _ r])
    show "?P c" by simp
  next
    fix x i x'
    assume "?P x" and "cleanupShard now x i = Returns x'"
    then show "?P x'"
      using cleanupShard_frame [of now x i x'] by auto
  qed
  then show ?thesis .
qed

lemma step_stays_closed:
  assumes "closed c = 1" and "step c x = Returns c'"
  shows "closed c' = 1"
proof (cases x)
  case (SetOp k v ttl now)
  with assms show ?thesis by (auto simp: Set_def)
next
  case (GetOp k now)
  with assms show ?thesis by (auto simp: Get_def)
next
  case (DeleteOp k)
  with assms show ?thesis by (auto simp: Delete_def)
next
  case ClearOp
  with assms show ?thesis using Clear_closed [of c c'] by simp
next
  case CloseOp
  with assms show ?thesis by (auto simp: Close_def)
next
  case (SweepOp now)
  with assms show ?thesis using cleanupExpired_frame [of c now c'] by simp
next
  case EvictOp
  with assms show ?thesis using evictIfNeeded_frame [of c c'] by simp
qed

lemma run_stays_closed:
  "closed c = 1 \<Longrightarrow> run c xs = Returns c' \<Longrightarrow> closed c' = 1"
proof (induction xs arbitrary: c)
  case Nil
  then show ?case by simp
next
  case (Cons x xs)
  from Cons.prems(2) obtain c1 where s: "step c x = Returns c1" and r: "run c1 xs = Returns c'"
    by (auto split: outcome.splits)
  from step_stays_closed [OF Cons.prems(1) s] Cons.IH r show ?case by simp
qed

text \<open>
  C8. On an open cache \<^verbatim>\<open>Close\<close> returns \<^verbatim>\<open>nil\<close> and sets the flag. After that,
  whatever operations run in between, every \<^verbatim>\<open>Close\<close> returns \<^verbatim>\<open>ErrCacheClosed\<close>,
  every \<^verbatim>\<open>Set\<close> returns \<^verbatim>\<open>ErrCacheClosed\<close>, every \<^verbatim>\<open>Get\<close> returns
  \<^verbatim>\<open>(nil, false)\<close> and every \<^verbatim>\<open>Delete\<close> returns \<^verbatim>\<open>false\<close>.
\<close>

theorem Close_once_then_closed:
  "closed c = 0 \<Longrightarrow>
     fst (Close c) = None \<and> closed (snd (Close c)) = 1 \<and>
     (\<forall>xs c'. run (snd (Close c)) xs = Returns c' \<longrightarrow>
        fst (Close c') = Some ErrCacheClosed \<and>
        (\<forall>k v ttl now. \<exists>c''. Set c' k v ttl now = Returns (Some ErrCacheClosed, c'')) \<and>
        (\<forall>k now. \<exists>v sp c''. Get c' k now = Returns ((v, False), sp, c'')) \<and>
        (\<forall>k. \<exists>c''. Delete c' k = Returns (False, c'')))"
proof (intro conjI allI impI)
  assume o: "closed c = 0"
  show "fst (Close c) = None" using o by (simp add: Close_def)
  show cl: "closed (snd (Close c)) = 1" using o by (simp add: Close_def)
  fix xs c'
  assume "run (snd (Close c)) xs = Returns c'"
  from run_stays_closed [OF cl this] have c1: "closed c' = 1" .
  show "fst (Close c') = Some ErrCacheClosed" using c1 by (simp add: Close_def)
  show "\<And>k v ttl now. \<exists>c''. Set c' k v ttl now = Returns (Some ErrCacheClosed, c'')"
    using c1 by (simp add: Set_def)
  show "\<And>k now. \<exists>v sp c''. Get c' k now = Returns ((v, False), sp, c'')"
    using c1 by (simp add: Get_def)
  show "\<And>k. \<exists>c''. Delete c' k = Returns (False, c'')"
    using c1 by (simp add: Delete_def)
qed

theorem Close_once_then_closed_witness:
  "closed \<lparr> config = DefaultConfig, shards = [newShard], totalSize = 0, totalHits = 0,
            totalMiss = 0, closed = 0, stopCh_closed = False \<rparr> = 0 \<and>
   fst (Close \<lparr> config = DefaultConfig, shards = [newShard], totalSize = 0, totalHits = 0,
            totalMiss = 0, closed = 0, stopCh_closed = False \<rparr>) = None \<and>
   fst (Close (snd (Close \<lparr> config = DefaultConfig, shards = [newShard], totalSize = 0,
            totalHits = 0, totalMiss = 0, closed = 0, stopCh_closed = False \<rparr>)))
     = Some ErrCacheClosed"
proof -
  let ?c = "\<lparr> config = DefaultConfig, shards = [newShard], totalSize = 0, totalHits = 0,
            totalMiss = 0, closed = 0, stopCh_closed = False \<rparr>"
  have o: "closed ?c = 0" by simp
  have r: "run (snd (Close ?c)) [] = Returns (snd (Close ?c))" by simp
  from Close_once_then_closed [OF o] r
  have "fst (Close ?c) = None" and "fst (Close (snd (Close ?c))) = Some ErrCacheClosed"
    by blast+
  with o show ?thesis by simp
qed

section \<open>Size accounting\<close>

subsection \<open>Sums over the index\<close>









subsection \<open>One shard\<close>

lemma shard_wf_frame [simp]:
  "shard_wf (s\<lparr>mu := b\<rparr>) = shard_wf s"
  "shard_wf (s\<lparr>hitCount := h\<rparr>) = shard_wf s"
  "shard_wf (s\<lparr>missCount := m\<rparr>) = shard_wf s"
  "shard_wf (s\<lparr>shard_size := z\<rparr>) = shard_wf s"
  by (simp_all add: shard_wf_def)

lemma shard_accounted_frame [simp]:
  "shard_accounted (s\<lparr>mu := b\<rparr>) = shard_accounted s"
  "shard_accounted (s\<lparr>hitCount := h\<rparr>) = shard_accounted s"
  "shard_accounted (s\<lparr>missCount := m\<rparr>) = shard_accounted s"
  "shard_accounted (s\<lparr>lruList := l\<rparr>) = shard_accounted s"
  by (simp_all add: shard_accounted_def)



lemma shard_wf_listed:
  "shard_wf s \<Longrightarrow> k \<in> set (lruList s) \<Longrightarrow> \<exists>e. map_of (data s) k = Some e"
  by (metis shard_wf_def domD dom_map_of_conv_image_fst)







subsection \<open>The whole cache\<close>



lemma accounted_nth:
  "accounted c \<Longrightarrow> i < length (shards c) \<Longrightarrow>
     shard_wf (shards c ! i) \<and> shard_accounted (shards c ! i)"
  by (simp add: accounted_def)

lemma accounted_counters [simp]:
  "accounted (c\<lparr>totalHits := h\<rparr>) = accounted c"
  "accounted (c\<lparr>totalMiss := m\<rparr>) = accounted c"
  "accounted (c\<lparr>closed := b\<rparr>) = accounted c"
  "accounted (c\<lparr>stopCh_closed := d\<rparr>) = accounted c"
  by (simp_all add: accounted_def total_accounted_def)

lemma getShard_Returns:
  "getShard c k = Returns i \<Longrightarrow> i < length (shards c)"
  by (auto simp: getShard_def Let_def split: if_splits)







subsection \<open>Set, Get, Delete\<close>

lemma Set_Returns:
  assumes "Set c k v ttl now = Returns (r, c')" and "closed c \<noteq> 1"
  obtains i c2 where "getShard c k = Returns i" and "i < length (shards c)"
    and "\<not> mu (shards c ! i)"
    and "evictIfNeeded (storeEntry c i ((shards c ! i)\<lparr>mu := True\<rparr>) k v
           (calculateSize k v) (setExpiry c ttl now)) = Returns c2"
    and "c' = setShard c2 i (Unlock (shards c2 ! i))" and "r = None"
proof -
  from assms obtain i where i: "getShard c k = Returns i"
    by (auto simp: Set_def split: outcome.splits)
  from assms i have nm: "\<not> mu (shards c ! i)"
    by (auto simp: Set_def Lock_def Let_def split: if_splits)
  from assms i nm obtain c2 where
    "evictIfNeeded (storeEntry c i ((shards c ! i)\<lparr>mu := True\<rparr>) k v
           (calculateSize k v) (setExpiry c ttl now)) = Returns c2"
    and "c' = setShard c2 i (Unlock (shards c2 ! i))" and "r = None"
    by (auto simp: Set_def Lock_def Let_def split: outcome.splits)
  with i nm getShard_Returns [OF i] that show thesis by blast
qed







subsection \<open>Runs\<close>




subsection \<open>Locks\<close>

lemma evictIfNeeded_locks:
  assumes "evictIfNeeded c = Returns c'"
  shows "length (shards c') = length (shards c) \<and>
     (\<forall>j < length (shards c).
        (\<not> mu (shards c ! j) \<longrightarrow> \<not> mu (shards c' ! j)) \<and>
        (mu (shards c ! j) \<longrightarrow> shards c' ! j = shards c ! j))"
proof (cases "totalSize c \<le>s MaxMemoryBytes (config c)")
  case True
  with assms show ?thesis by (simp add: evictIfNeeded_def)
next
  case False
  let ?P = "\<lambda>x. length (shards x) = length (shards c) \<and>
     (\<forall>j < length (shards c).
        (\<not> mu (shards c ! j) \<longrightarrow> \<not> mu (shards x ! j)) \<and>
        (mu (shards c ! j) \<longrightarrow> shards x ! j = shards c ! j))"
  from False assms have r: "forShards
             (\<lambda>c i. if i < length (shards c) then evictFromShard c i 1
                    else Panics IndexOutOfRange)
             [0 ..< nat (shardsToEvict c)] c = Returns c'"
    by (simp add: evictIfNeeded_def)
  have "?P c'"
  proof (rule forShards_preserves [where P = ?P, OF _ _ r])
    show "?P c" by simp
  next
    fix x i x'
    assume P: "?P x"
      and b: "(if i < length (shards x) then evictFromShard x i 1 else Panics IndexOutOfRange) = Returns x'"
    from b have il: "i < length (shards x)" by (auto split: if_splits)
    with b have nm: "\<not> mu (shards x ! i)" and
      x': "shards x' = (shards x)[i := Unlock (fst (evictLoop 1 (Unlock (shards x ! i)\<lparr>mu := True\<rparr>, 0)))]"
      by (auto simp: evictFromShard_eq setShard_def split: if_splits)
    show "?P x'"
    proof (intro conjI allI impI)
      show "length (shards x') = length (shards c)" using P x' by simp
    next
      fix j assume "j < length (shards c)" and "\<not> mu (shards c ! j)"
      then show "\<not> mu (shards x' ! j)"
        using P x' il by (cases "j = i") (simp_all add: Unlock_def)
    next
      fix j assume j: "j < length (shards c)" and m: "mu (shards c ! j)"
      with P nm have "j \<noteq> i" by auto
      with P j m x' show "shards x' ! j = shards c ! j" by simp
    qed
  qed
  then show ?thesis .
qed





lemma quiescent_fields [simp]:
  "quiescent (c\<lparr>totalSize := t\<rparr>) = quiescent c"
  "quiescent (c\<lparr>totalHits := h\<rparr>) = quiescent c"
  "quiescent (c\<lparr>totalMiss := m\<rparr>) = quiescent c"
  "quiescent (c\<lparr>closed := b\<rparr>) = quiescent c"
  "quiescent (c\<lparr>stopCh_closed := d\<rparr>) = quiescent c"
  by (simp_all add: quiescent_def)

lemma quiescent_nth: "quiescent c \<Longrightarrow> i < length (shards c) \<Longrightarrow> \<not> mu (shards c ! i)"
  by (simp add: quiescent_def)











section \<open>Set followed by Get\<close>

subsection \<open>The clock\<close>




lemma expired_after_ttl:
  fixes now d now' :: int64
  assumes "0 \<le>s now" and "0 <s d" and "sint now + sint d < sint now'"
  shows "0 <s now + d \<and> now + d <s now'"
proof -
  have n: "0 \<le> sint now" using assms(1) by (simp add: word_sle_eq)
  have d: "0 < sint d" using assms(2) by (simp add: word_sless_alt)
  have "sint now' < 9223372036854775808" using sint_lt [of now'] by simp
  with assms(3) have "sint now + sint d < 2 ^ 63" by simp
  then have "signed_take_bit 63 (sint now + sint d) = sint now + sint d"
    using n d by (intro signed_take_bit_int_eq_self) simp_all
  then have "sint (now + d) = sint now + sint d" by (simp add: sint_word_ariths)
  with n d assms(3) show ?thesis by (simp add: word_sless_alt)
qed

subsection \<open>What Set leaves behind\<close>

lemma storeEntry_shape:
  assumes "i < length (shards c)"
  shows "length (shards (storeEntry c i s k v sz ex)) = length (shards c) \<and>
     config (storeEntry c i s k v sz ex) = config c \<and>
     closed (storeEntry c i s k v sz ex) = closed c \<and>
     mu (shards (storeEntry c i s k v sz ex) ! i) = mu s \<and>
     (\<exists>e. map_of (data (shards (storeEntry c i s k v sz ex) ! i)) k = Some e \<and>
          val e = v \<and> entry_size e = sz \<and> expiry e = ex)"
  using assms
  by (cases "map_of (data s) k") (simp_all add: storeEntry_def setShard_def update_conv')

lemma getShard_cong:
  "config c' = config c \<Longrightarrow> length (shards c') = length (shards c) \<Longrightarrow>
     getShard c' k = getShard c k"
  by (simp add: getShard_def Let_def)

lemma Set_stores:
  assumes "Set c k v ttl now = Returns (None, c')"
  shows "\<exists>i e. getShard c k = Returns i \<and> getShard c' k = Returns i \<and>
     i < length (shards c') \<and> \<not> mu (shards c' ! i) \<and>
     map_of (data (shards c' ! i)) k = Some e \<and>
     val e = v \<and> entry_size e = calculateSize k v \<and> expiry e = setExpiry c ttl now \<and>
     closed c' = closed c \<and> closed c \<noteq> 1 \<and> config c' = config c"
proof -
  have op: "closed c \<noteq> 1" using assms by (auto simp: Set_def)
  let ?c1 = "storeEntry c i ((shards c ! i)\<lparr>mu := True\<rparr>) k v
           (calculateSize k v) (setExpiry c ttl now)"
  from Set_Returns [OF assms op] obtain i c2 where
    g: "getShard c k = Returns i" and i: "i < length (shards c)"
    and ev: "evictIfNeeded (storeEntry c i ((shards c ! i)\<lparr>mu := True\<rparr>) k v
           (calculateSize k v) (setExpiry c ttl now)) = Returns c2"
    and c': "c' = setShard c2 i (Unlock (shards c2 ! i))"
    by blast
  let ?c1 = "storeEntry c i ((shards c ! i)\<lparr>mu := True\<rparr>) k v
           (calculateSize k v) (setExpiry c ttl now)"
  from storeEntry_shape [OF i, of "(shards c ! i)\<lparr>mu := True\<rparr>" k v
      "calculateSize k v" "setExpiry c ttl now"]
  obtain e where l1: "length (shards ?c1) = length (shards c)"
    and f1: "config ?c1 = config c" "closed ?c1 = closed c"
    and m1: "mu (shards ?c1 ! i)"
    and e: "map_of (data (shards ?c1 ! i)) k = Some e" "val e = v"
      "entry_size e = calculateSize k v" "expiry e = setExpiry c ttl now"
    by auto
  from evictIfNeeded_locks [OF ev] l1 i m1
  have l2: "length (shards c2) = length (shards c)" and s2: "shards c2 ! i = shards ?c1 ! i"
    by auto
  from evictIfNeeded_frame [OF ev] f1
  have f2: "config c2 = config c" "closed c2 = closed c" by auto
  have l': "length (shards c') = length (shards c)" and f': "config c' = config c" "closed c' = closed c"
    using l2 f2 by (simp_all add: c' setShard_def)
  have s': "shards c' ! i = Unlock (shards ?c1 ! i)"
    using l2 i s2 by (simp add: c' setShard_def)
  have "getShard c' k = Returns i" using getShard_cong [OF f'(1) l'] g by simp
  moreover have "\<not> mu (shards c' ! i)" by (simp add: s' Unlock_def)
  moreover have "map_of (data (shards c' ! i)) k = Some e" using e(1) by (simp add: s' Unlock_def)
  ultimately show ?thesis using g i l' e f' op by auto
qed




section \<open>Expiry\<close>

text \<open>
  C6. When \<^verbatim>\<open>Set(key, value, ttl...)\<close> has returned \<^verbatim>\<open>nil\<close>, the entry indexed under
  the key has this expiry: the clock reading plus the first \<^verbatim>\<open>ttl\<close> argument if one
  is supplied and positive; otherwise the clock reading plus the configured default
  TTL if that is positive; otherwise 0, the sentinel for "never". A supplied
  \<^verbatim>\<open>ttl\<close> that is zero or negative falls under "otherwise", as no \<^verbatim>\<open>ttl\<close> does.
  Sums are those of \<^verbatim>\<open>int64\<close>.
\<close>

theorem Set_expiry_from_ttl:
  "Set c k v ttl now = Returns (None, c') \<Longrightarrow>
     \<exists>i e. getShard c' k = Returns i \<and> map_of (data (shards c' ! i)) k = Some e \<and>
       (ttl \<noteq> [] \<and> 0 <s hd ttl \<longrightarrow> expiry e = now + hd ttl) \<and>
       ((ttl = [] \<or> hd ttl \<le>s 0) \<and> 0 <s DefaultTTL (config c) \<longrightarrow>
          expiry e = now + DefaultTTL (config c)) \<and>
       ((ttl = [] \<or> hd ttl \<le>s 0) \<and> DefaultTTL (config c) \<le>s 0 \<longrightarrow> expiry e = 0)"
proof -
  assume s: "Set c k v ttl now = Returns (None, c')"
  from Set_stores [OF s] obtain i e where
    g: "getShard c' k = Returns i"
    and e: "map_of (data (shards c' ! i)) k = Some e" "expiry e = setExpiry c ttl now"
    by auto
  have "ttl \<noteq> [] \<and> 0 <s hd ttl \<longrightarrow> setExpiry c ttl now = now + hd ttl"
    by (simp add: setExpiry_def)
  moreover have "(ttl = [] \<or> hd ttl \<le>s 0) \<and> 0 <s DefaultTTL (config c) \<longrightarrow>
          setExpiry c ttl now = now + DefaultTTL (config c)"
    by (auto simp: setExpiry_def signed.not_less [symmetric])
  moreover have "(ttl = [] \<or> hd ttl \<le>s 0) \<and> DefaultTTL (config c) \<le>s 0 \<longrightarrow>
          setExpiry c ttl now = 0"
    by (auto simp: setExpiry_def signed.not_less [symmetric])
  ultimately show ?thesis using g e by auto
qed

theorem Set_expiry_from_ttl_witness:
  "Set \<lparr> config = \<lparr> MaxMemoryBytes = 100, ShardCount = 2, DefaultTTL = 10,
                       CleanupInterval = 1000000000 \<rparr>,
         shards = [newShard, newShard],
         totalSize = 0, totalHits = 0, totalMiss = 0, closed = 0, stopCh_closed = False \<rparr>
     ''key1'' (StringV ''value1'') [- 3] 5
   = Returns (None,
       \<lparr> config = \<lparr> MaxMemoryBytes = 100, ShardCount = 2, DefaultTTL = 10,
                       CleanupInterval = 1000000000 \<rparr>,
         shards = [newShard,
                   \<lparr> mu = False,
                     data = [(''key1'', \<lparr> key = ''key1'', val = StringV ''value1'',
                                          entry_size = 74, expiry = 15 \<rparr>)],
                     lruList = [''key1''], shard_size = 74, hitCount = 0, missCount = 0 \<rparr>],
         totalSize = 74, totalHits = 0, totalMiss = 0, closed = 0, stopCh_closed = False \<rparr>) \<and>
   (- 3 :: duration) \<le>s 0 \<and> (0 :: duration) <s 10 \<and> (15 :: int64) = 5 + 10"
proof -
  let ?start = "\<lparr> config = \<lparr> MaxMemoryBytes = 100, ShardCount = 2, DefaultTTL = 10,
                       CleanupInterval = 1000000000 \<rparr>,
         shards = [newShard, newShard],
         totalSize = 0, totalHits = 0, totalMiss = 0, closed = 0, stopCh_closed = False \<rparr>"
  let ?stored = "\<lparr> config = \<lparr> MaxMemoryBytes = 100, ShardCount = 2, DefaultTTL = 10,
                       CleanupInterval = 1000000000 \<rparr>,
         shards = [newShard,
                   \<lparr> mu = False,
                     data = [(''key1'', \<lparr> key = ''key1'', val = StringV ''value1'',
                                          entry_size = 74, expiry = 15 \<rparr>)],
                     lruList = [''key1''], shard_size = 74, hitCount = 0, missCount = 0 \<rparr>],
         totalSize = 74, totalHits = 0, totalMiss = 0, closed = 0, stopCh_closed = False \<rparr>"
  have s: "Set ?start ''key1'' (StringV ''value1'') [- 3] 5 = Returns (None, ?stored)"
    by code_simp
  have h: "(- 3 :: duration) \<le>s 0" "(0 :: duration) <s 10"
    by (simp_all add: word_sle_eq word_sless_alt)
  from Set_expiry_from_ttl [OF s] obtain i e where
    "getShard ?stored ''key1'' = Returns i" "map_of (data (shards ?stored ! i)) ''key1'' = Some e"
    "([- 3 :: duration] = [] \<or> hd [- 3 :: duration] \<le>s 0) \<and> 0 <s DefaultTTL (config ?start) \<longrightarrow>
          expiry e = 5 + DefaultTTL (config ?start)"
    by blast
  with h have "expiry e = 5 + 10" by simp
  with s h show ?thesis by simp
qed

text \<open>
  C7. An entry is expired at a clock reading when its expiry is a positive instant that
  the reading has passed (0 stands for "never", and \<^verbatim>\<open>isExpired\<close> takes every expiry
  that is not positive so). On an open cache, \<^verbatim>\<open>Get\<close> of a key whose entry is indexed
  and expired returns \<^verbatim>\<open>(nil, false)\<close>, adds 1 to the miss counter of the shard and 1 to
  the process-wide miss counter, changes nothing else, and starts a \<^verbatim>\<open>Delete\<close> of the
  key. In particular: when \<^verbatim>\<open>Set(k, v, ttl)\<close> with a positive \<^verbatim>\<open>ttl\<close> has returned
  \<^verbatim>\<open>nil\<close> at a clock reading not before the epoch, a \<^verbatim>\<open>Get(k)\<close> that follows it at a
  reading more than \<^verbatim>\<open>ttl\<close> later returns \<^verbatim>\<open>(nil, false)\<close>.
\<close>

theorem Get_of_expired_key_misses:
  "(quiescent c \<and> closed c \<noteq> 1 \<and> getShard c k = Returns i \<and>
    map_of (data (shards c ! i)) k = Some e \<and> 0 <s expiry e \<and> expiry e <s now \<longrightarrow>
      Get c k now = Returns ((None, False), Some k,
        (setShard c i ((shards c ! i)\<lparr>missCount := missCount (shards c ! i) + 1\<rparr>))
        \<lparr>totalMiss := totalMiss c + 1\<rparr>)) \<and>
   (Set c0 k v (d # rest) t0 = Returns (None, c) \<and> 0 \<le>s t0 \<and> 0 <s d \<and>
    sint t0 + sint d < sint now \<longrightarrow>
      (\<exists>c'. Get c k now = Returns ((None, False), Some k, c')))"
proof (intro conjI impI)
  assume a: "quiescent c \<and> closed c \<noteq> 1 \<and> getShard c k = Returns i \<and>
    map_of (data (shards c ! i)) k = Some e \<and> 0 <s expiry e \<and> expiry e <s now"
  then have il: "i < length (shards c)" using getShard_Returns by blast
  with a have "\<not> mu (shards c ! i)" using quiescent_nth by blast
  with a show "Get c k now = Returns ((None, False), Some k,
        (setShard c i ((shards c ! i)\<lparr>missCount := missCount (shards c ! i) + 1\<rparr>))
        \<lparr>totalMiss := totalMiss c + 1\<rparr>)"
    by (simp add: Get_def RLock_def isExpired_def countMiss_def)
next
  assume a: "Set c0 k v (d # rest) t0 = Returns (None, c) \<and> 0 \<le>s t0 \<and> 0 <s d \<and>
    sint t0 + sint d < sint now"
  then have s: "Set c0 k v (d # rest) t0 = Returns (None, c)" by blast
  from Set_stores [OF s] obtain i e where
    g: "getShard c k = Returns i" and m: "\<not> mu (shards c ! i)"
    and e: "map_of (data (shards c ! i)) k = Some e" "expiry e = setExpiry c0 (d # rest) t0"
    and o: "closed c \<noteq> 1"
    by auto
  from a have "setExpiry c0 (d # rest) t0 = t0 + d" by (simp add: setExpiry_def)
  with e(2) expired_after_ttl [of t0 d now] a have "isExpired e now"
    by (simp add: isExpired_def)
  with g m e(1) o show "\<exists>c'. Get c k now = Returns ((None, False), Some k, c')"
    by (simp add: Get_def RLock_def)
qed

theorem Get_of_expired_key_misses_witness:
  "Set \<lparr> config = \<lparr> MaxMemoryBytes = 100, ShardCount = 2, DefaultTTL = 0,
                       CleanupInterval = 1000000000 \<rparr>,
         shards = [newShard, newShard],
         totalSize = 0, totalHits = 0, totalMiss = 0, closed = 0, stopCh_closed = False \<rparr>
     ''ttl_key'' (StringV ''ttl_value'') [100] 1000
   = Returns (None,
       \<lparr> config = \<lparr> MaxMemoryBytes = 100, ShardCount = 2, DefaultTTL = 0,
                       CleanupInterval = 1000000000 \<rparr>,
         shards = [newShard,
                   \<lparr> mu = False,
                     data = [(''ttl_key'', \<lparr> key = ''ttl_key'', val = StringV ''ttl_value'',
                                             entry_size = 80, expiry = 1100 \<rparr>)],
                     lruList = [''ttl_key''], shard_size = 80, hitCount = 0, missCount = 0 \<rparr>],
         totalSize = 80, totalHits = 0, totalMiss = 0, closed = 0, stopCh_closed = False \<rparr>) \<and>
   Get \<lparr> config = \<lparr> MaxMemoryBytes = 100, ShardCount = 2, DefaultTTL = 0,
                       CleanupInterval = 1000000000 \<rparr>,
         shards = [newShard,
                   \<lparr> mu = False,
                     data = [(''ttl_key'', \<lparr> key = ''ttl_key'', val = StringV ''ttl_value'',
                                             entry_size = 80, expiry = 1100 \<rparr>)],
                     lruList = [''ttl_key''], shard_size = 80, hitCount = 0, missCount = 0 \<rparr>],
         totalSize = 80, totalHits = 0, totalMiss = 0, closed = 0, stopCh_closed = False \<rparr>
     ''ttl_key'' 1150
   = Returns ((None, False), Some ''ttl_key'',
       \<lparr> config = \<lparr> MaxMemoryBytes = 100, ShardCount = 2, DefaultTTL = 0,
                       CleanupInterval = 1000000000 \<rparr>,
         shards = [newShard,
                   \<lparr> mu = False,
                     data = [(''ttl_key'', \<lparr> key = ''ttl_key'', val = StringV ''ttl_value'',
                                             entry_size = 80, expiry = 1100 \<rparr>)],
                     lruList = [''ttl_key''], shard_size = 80, hitCount = 0, missCount = 1 \<rparr>],
         totalSize = 80, totalHits = 0, totalMiss = 1, closed = 0, stopCh_closed = False \<rparr>)"
proof -
  let ?start = "\<lparr> config = \<lparr> MaxMemoryBytes = 100, ShardCount = 2, DefaultTTL = 0,
                       CleanupInterval = 1000000000 \<rparr>,
         shards = [newShard, newShard],
         totalSize = 0, totalHits = 0, totalMiss = 0, closed = 0, stopCh_closed = False \<rparr>"
  let ?entry = "\<lparr> key = ''ttl_key'', val = StringV ''ttl_value'',
                  entry_size = 80, expiry = 1100 \<rparr>"
  let ?stored = "\<lparr> config = \<lparr> MaxMemoryBytes = 100, ShardCount = 2, DefaultTTL = 0,
                       CleanupInterval = 1000000000 \<rparr>,
         shards = [newShard,
                   \<lparr> mu = False, data = [(''ttl_key'', ?entry)],
                     lruList = [''ttl_key''], shard_size = 80, hitCount = 0, missCount = 0 \<rparr>],
         totalSize = 80, totalHits = 0, totalMiss = 0, closed = 0, stopCh_closed = False \<rparr>"
  have s: "Set ?start ''ttl_key'' (StringV ''ttl_value'') [100] 1000 = Returns (None, ?stored)"
    by code_simp
  have h: "quiescent ?stored \<and> closed ?stored \<noteq> 1 \<and> getShard ?stored ''ttl_key'' = Returns 1 \<and>
    map_of (data (shards ?stored ! 1)) ''ttl_key'' = Some ?entry \<and>
    0 <s expiry ?entry \<and> expiry ?entry <s 1150"
    by code_simp
  have "Get ?stored ''ttl_key'' 1150 = Returns ((None, False), Some ''ttl_key'',
        (setShard ?stored 1 ((shards ?stored ! 1)\<lparr>missCount := missCount (shards ?stored ! 1) + 1\<rparr>))
        \<lparr>totalMiss := totalMiss ?stored + 1\<rparr>)"
    using Get_of_expired_key_misses [of ?stored "''ttl_key''" 1 ?entry 1150] h by blast
  with s show ?thesis by (simp add: setShard_def)
qed

section \<open>The eviction check\<close>

lemma evictOne_empty:
  "lruList s = [] \<Longrightarrow> \<not> mu s \<Longrightarrow>
     Unlock (fst (evictLoop 1 (Unlock s\<lparr>mu := True\<rparr>, 0))) = s \<and>
     snd (evictLoop 1 (Unlock s\<lparr>mu := True\<rparr>, 0)) = 0"
  by (cases s) (simp add: Unlock_def)

lemma evictOne_tail:
  "lruList s \<noteq> [] \<Longrightarrow> \<not> mu s \<Longrightarrow> map_of (data s) (last (lruList s)) = Some e \<Longrightarrow>
     Unlock (fst (evictLoop 1 (Unlock s\<lparr>mu := True\<rparr>, 0)))
       = s\<lparr>data := AList.delete (key e) (data s), lruList := butlast (lruList s),
           shard_size := shard_size s - entry_size e\<rparr> \<and>
     snd (evictLoop 1 (Unlock s\<lparr>mu := True\<rparr>, 0)) = - entry_size e"
  by (cases s) (simp add: Unlock_def)

lemma shardsToEvict_eq:
  "1 \<le> ShardCount (config c) \<Longrightarrow>
     shardsToEvict c = max 1 (ShardCount (config c) div 4) \<and>
     nat (shardsToEvict c) \<le> nat (ShardCount (config c))"
  by (auto simp: shardsToEvict_def quo_def Let_def max_def)

lemma evictIfNeeded_eq:
  assumes "nat (shardsToEvict c) \<le> length (shards c)"
  shows "evictIfNeeded c =
     (if totalSize c \<le>s MaxMemoryBytes (config c) then Returns c
      else if \<exists>i < nat (shardsToEvict c). mu (shards c ! i) then Blocks
      else Returns (c\<lparr>shards :=
                 map (\<lambda>j. if j < nat (shardsToEvict c)
                          then Unlock (fst (evictLoop 1 (Unlock (shards c ! j)\<lparr>mu := True\<rparr>, 0)))
                          else shards c ! j) [0 ..< length (shards c)],
               totalSize := totalSize c +
                 (\<Sum>i\<leftarrow>[0 ..< nat (shardsToEvict c)].
                     snd (evictLoop 1 (Unlock (shards c ! i)\<lparr>mu := True\<rparr>, 0)))\<rparr>))"
proof -
  have "forShards (\<lambda>c i. if i < length (shards c) then evictFromShard c i 1
                         else Panics IndexOutOfRange) [0 ..< nat (shardsToEvict c)] c =
       (if \<exists>i\<in>set [0 ..< nat (shardsToEvict c)]. mu (shards c ! i) then Blocks
        else Returns (c\<lparr>shards := map (\<lambda>j. if j \<in> set [0 ..< nat (shardsToEvict c)]
                          then Unlock (fst (evictLoop 1 (Unlock (shards c ! j)\<lparr>mu := True\<rparr>, 0)))
                          else shards c ! j) [0 ..< length (shards c)],
                         totalSize := totalSize c +
                 (\<Sum>i\<leftarrow>[0 ..< nat (shardsToEvict c)].
                     snd (evictLoop 1 (Unlock (shards c ! i)\<lparr>mu := True\<rparr>, 0)))\<rparr>))"
    using assms
    by (intro forShards_local
          [where g = "\<lambda>s. Unlock (fst (evictLoop 1 (Unlock s\<lparr>mu := True\<rparr>, 0)))"
             and d = "\<lambda>s. snd (evictLoop 1 (Unlock s\<lparr>mu := True\<rparr>, 0))"])
       (simp_all add: evictFromShard_eq)
  moreover have "(\<exists>i\<in>set [0 ..< nat (shardsToEvict c)]. mu (shards c ! i))
      = (\<exists>i < nat (shardsToEvict c). mu (shards c ! i))"
    by auto
  ultimately have "forShards (\<lambda>c i. if i < length (shards c) then evictFromShard c i 1
                         else Panics IndexOutOfRange) [0 ..< nat (shardsToEvict c)] c =
       (if \<exists>i < nat (shardsToEvict c). mu (shards c ! i) then Blocks
        else Returns (c\<lparr>shards := map (\<lambda>j. if j < nat (shardsToEvict c)
                          then Unlock (fst (evictLoop 1 (Unlock (shards c ! j)\<lparr>mu := True\<rparr>, 0)))
                          else shards c ! j) [0 ..< length (shards c)],
                         totalSize := totalSize c +
                 (\<Sum>i\<leftarrow>[0 ..< nat (shardsToEvict c)].
                     snd (evictLoop 1 (Unlock (shards c ! i)\<lparr>mu := True\<rparr>, 0)))\<rparr>))"
    by simp
  then show ?thesis unfolding evictIfNeeded_def by (simp only: if_True if_False split: if_splits)
qed

text \<open>
  C4, as the code has it. The shards taken are those of the indices below
  \<open>max(1, N / 4)\<close>. When the process-wide size is within the budget the check changes
  nothing. Otherwise, provided the caller holds the mutex of none of those shards, it
  returns after one pass: a shard among them that has entries loses the entry at the
  tail of its recency list, from the list and from the index, and its size goes down by
  the size of that entry; a shard among them that is empty stays as it is; no other shard
  changes; the process-wide size goes down by what the shards' sizes went down by; the
  hit and miss counters stay. The pass is not repeated, whatever the size is after it.
\<close>

theorem evictIfNeeded_removes_tails:
  assumes "accounted c" and "length (shards c) = nat (ShardCount (config c))"
    and "1 \<le> ShardCount (config c)"
    and "\<forall>i < nat (shardsToEvict c). \<not> mu (shards c ! i)"
  shows "shardsToEvict c = max 1 (ShardCount (config c) div 4) \<and>
    (totalSize c \<le>s MaxMemoryBytes (config c) \<longrightarrow> evictIfNeeded c = Returns c) \<and>
    (\<not> totalSize c \<le>s MaxMemoryBytes (config c) \<longrightarrow>
       (\<exists>c'. evictIfNeeded c = Returns c' \<and> length (shards c') = length (shards c) \<and>
          (\<forall>i < length (shards c).
             (nat (shardsToEvict c) \<le> i \<longrightarrow> shards c' ! i = shards c ! i) \<and>
             (i < nat (shardsToEvict c) \<and> lruList (shards c ! i) = [] \<longrightarrow>
                shards c' ! i = shards c ! i) \<and>
             (i < nat (shardsToEvict c) \<and> lruList (shards c ! i) \<noteq> [] \<longrightarrow>
                (\<exists>e. map_of (data (shards c ! i)) (last (lruList (shards c ! i))) = Some e \<and>
                   shards c' ! i = (shards c ! i)
                     \<lparr>data := AList.delete (key e) (data (shards c ! i)),
                      lruList := butlast (lruList (shards c ! i)),
                      shard_size := shard_size (shards c ! i) - entry_size e\<rparr>))) \<and>
          totalSize c' = totalSize c +
            (\<Sum>i\<leftarrow>[0 ..< nat (shardsToEvict c)].
                shard_size (shards c' ! i) - shard_size (shards c ! i)) \<and>
          config c' = config c \<and> closed c' = closed c \<and>
          totalHits c' = totalHits c \<and> totalMiss c' = totalMiss c))"
proof (intro conjI impI)
  from shardsToEvict_eq [OF assms(3)]
  show n: "shardsToEvict c = max 1 (ShardCount (config c) div 4)" by blast
  from shardsToEvict_eq [OF assms(3)] assms(2)
  have le: "nat (shardsToEvict c) \<le> length (shards c)" by metis
  show "evictIfNeeded c = Returns c" if "totalSize c \<le>s MaxMemoryBytes (config c)"
    using that by (simp add: evictIfNeeded_def)
  let ?n = "nat (shardsToEvict c)"
  let ?g = "\<lambda>s. Unlock (fst (evictLoop 1 (Unlock s\<lparr>mu := True\<rparr>, 0)))"
  let ?d = "\<lambda>s. snd (evictLoop 1 (Unlock s\<lparr>mu := True\<rparr>, 0))"
  let ?c' = "c\<lparr>shards := map (\<lambda>j. if j < ?n then ?g (shards c ! j) else shards c ! j)
                               [0 ..< length (shards c)],
               totalSize := totalSize c + (\<Sum>i\<leftarrow>[0 ..< ?n]. ?d (shards c ! i))\<rparr>"
  assume over: "\<not> totalSize c \<le>s MaxMemoryBytes (config c)"
  have r: "evictIfNeeded c = Returns ?c'"
    using evictIfNeeded_eq [OF le] over assms(4) by simp
  have nth: "\<And>i. i < length (shards c) \<Longrightarrow>
      shards ?c' ! i = (if i < ?n then ?g (shards c ! i) else shards c ! i)"
    by simp
  have empty: "\<And>i. i < ?n \<Longrightarrow> lruList (shards c ! i) = [] \<Longrightarrow>
      ?g (shards c ! i) = shards c ! i \<and> ?d (shards c ! i) = 0"
    using assms(4) by (intro evictOne_empty) simp_all
  have tail: "\<exists>e. map_of (data (shards c ! i)) (last (lruList (shards c ! i))) = Some e \<and>
      ?g (shards c ! i) = (shards c ! i)
                     \<lparr>data := AList.delete (key e) (data (shards c ! i)),
                      lruList := butlast (lruList (shards c ! i)),
                      shard_size := shard_size (shards c ! i) - entry_size e\<rparr> \<and>
      ?d (shards c ! i) = - entry_size e"
    if i: "i < ?n" and ne: "lruList (shards c ! i) \<noteq> []" for i
  proof -
    from i le have il: "i < length (shards c)" by simp
    have wf: "shard_wf (shards c ! i)" using accounted_nth [OF assms(1) il] by simp
    from ne have "last (lruList (shards c ! i)) \<in> set (lruList (shards c ! i))" by simp
    from shard_wf_listed [OF wf this] obtain e
      where e: "map_of (data (shards c ! i)) (last (lruList (shards c ! i))) = Some e" ..
    from evictOne_tail [OF ne _ e] assms(4) i e show ?thesis by blast
  qed
  have d: "?d (shards c ! i) = shard_size (shards ?c' ! i) - shard_size (shards c ! i)"
    if i: "i < ?n" for i
  proof (cases "lruList (shards c ! i) = []")
    case True
    with empty [OF i] nth [of i] i le show ?thesis by simp
  next
    case False
    from tail [OF i False] obtain e where
      "map_of (data (shards c ! i)) (last (lruList (shards c ! i))) = Some e \<and>
       ?g (shards c ! i) = (shards c ! i)
                     \<lparr>data := AList.delete (key e) (data (shards c ! i)),
                      lruList := butlast (lruList (shards c ! i)),
                      shard_size := shard_size (shards c ! i) - entry_size e\<rparr> \<and>
       ?d (shards c ! i) = - entry_size e" ..
    with nth [of i] i le show ?thesis by simp
  qed
  have s: "(\<Sum>i\<leftarrow>[0 ..< ?n]. ?d (shards c ! i))
         = (\<Sum>i\<leftarrow>[0 ..< ?n]. shard_size (shards ?c' ! i) - shard_size (shards c ! i))"
  proof (rule arg_cong [where f = sum_list], rule map_cong [OF refl])
    fix i assume "i \<in> set [0 ..< ?n]"
    then have "i < ?n" by simp
    then show "?d (shards c ! i) = shard_size (shards ?c' ! i) - shard_size (shards c ! i)"
      by (rule d)
  qed
  have tot: "totalSize ?c' = totalSize c +
            (\<Sum>i\<leftarrow>[0 ..< ?n]. shard_size (shards ?c' ! i) - shard_size (shards c ! i))"
    using s by simp
  have per: "\<forall>i < length (shards c).
             (?n \<le> i \<longrightarrow> shards ?c' ! i = shards c ! i) \<and>
             (i < ?n \<and> lruList (shards c ! i) = [] \<longrightarrow> shards ?c' ! i = shards c ! i) \<and>
             (i < ?n \<and> lruList (shards c ! i) \<noteq> [] \<longrightarrow>
                (\<exists>e. map_of (data (shards c ! i)) (last (lruList (shards c ! i))) = Some e \<and>
                   shards ?c' ! i = (shards c ! i)
                     \<lparr>data := AList.delete (key e) (data (shards c ! i)),
                      lruList := butlast (lruList (shards c ! i)),
                      shard_size := shard_size (shards c ! i) - entry_size e\<rparr>))"
  proof (intro allI impI conjI)
    fix i assume il: "i < length (shards c)"
    show "shards ?c' ! i = shards c ! i" if "?n \<le> i"
      using nth [OF il] that by simp
    show "shards ?c' ! i = shards c ! i" if "i < ?n \<and> lruList (shards c ! i) = []"
      using nth [OF il] empty [of i] that by simp
    show "\<exists>e. map_of (data (shards c ! i)) (last (lruList (shards c ! i))) = Some e \<and>
                   shards ?c' ! i = (shards c ! i)
                     \<lparr>data := AList.delete (key e) (data (shards c ! i)),
                      lruList := butlast (lruList (shards c ! i)),
                      shard_size := shard_size (shards c ! i) - entry_size e\<rparr>"
      if "i < ?n \<and> lruList (shards c ! i) \<noteq> []"
    proof -
      from that have "i < ?n" and "lruList (shards c ! i) \<noteq> []" by simp_all
      from tail [OF this] obtain e where
        "map_of (data (shards c ! i)) (last (lruList (shards c ! i))) = Some e \<and>
         ?g (shards c ! i) = (shards c ! i)
                     \<lparr>data := AList.delete (key e) (data (shards c ! i)),
                      lruList := butlast (lruList (shards c ! i)),
                      shard_size := shard_size (shards c ! i) - entry_size e\<rparr> \<and>
         ?d (shards c ! i) = - entry_size e" ..
      with nth [OF il] that show ?thesis by simp
    qed
  qed
  show "\<exists>c'. evictIfNeeded c = Returns c' \<and> length (shards c') = length (shards c) \<and>
          (\<forall>i < length (shards c).
             (nat (shardsToEvict c) \<le> i \<longrightarrow> shards c' ! i = shards c ! i) \<and>
             (i < nat (shardsToEvict c) \<and> lruList (shards c ! i) = [] \<longrightarrow>
                shards c' ! i = shards c ! i) \<and>
             (i < nat (shardsToEvict c) \<and> lruList (shards c ! i) \<noteq> [] \<longrightarrow>
                (\<exists>e. map_of (data (shards c ! i)) (last (lruList (shards c ! i))) = Some e \<and>
                   shards c' ! i = (shards c ! i)
                     \<lparr>data := AList.delete (key e) (data (shards c ! i)),
                      lruList := butlast (lruList (shards c ! i)),
                      shard_size := shard_size (shards c ! i) - entry_size e\<rparr>))) \<and>
          totalSize c' = totalSize c +
            (\<Sum>i\<leftarrow>[0 ..< nat (shardsToEvict c)].
                shard_size (shards c' ! i) - shard_size (shards c ! i)) \<and>
          config c' = config c \<and> closed c' = closed c \<and>
          totalHits c' = totalHits c \<and> totalMiss c' = totalMiss c"
    apply (rule exI [where x = ?c'])
    apply (intro conjI)
           apply (rule r)
          apply simp
         apply (rule per)
        apply (rule tot)
       apply simp_all
    done
qed

theorem evictIfNeeded_removes_tails_witness:
  "accounted
     \<lparr> config = \<lparr> MaxMemoryBytes = 100, ShardCount = 4, DefaultTTL = 0,
                     CleanupInterval = 1000000000 \<rparr>,
       shards = [\<lparr> mu = False,
                   data = [(''a'', \<lparr> key = ''a'', val = StringV ''x'', entry_size = 66,
                                     expiry = 0 \<rparr>)],
                   lruList = [''a''], shard_size = 66, hitCount = 0, missCount = 0 \<rparr>,
                 \<lparr> mu = True,
                   data = [(''b'', \<lparr> key = ''b'', val = StringV ''y'', entry_size = 66,
                                     expiry = 0 \<rparr>)],
                   lruList = [''b''], shard_size = 66, hitCount = 0, missCount = 0 \<rparr>,
                 newShard, newShard],
       totalSize = 132, totalHits = 0, totalMiss = 0, closed = 0, stopCh_closed = False \<rparr> \<and>
   \<not> (132 :: int64) \<le>s 100 \<and>
   evictIfNeeded
     \<lparr> config = \<lparr> MaxMemoryBytes = 100, ShardCount = 4, DefaultTTL = 0,
                     CleanupInterval = 1000000000 \<rparr>,
       shards = [\<lparr> mu = False,
                   data = [(''a'', \<lparr> key = ''a'', val = StringV ''x'', entry_size = 66,
                                     expiry = 0 \<rparr>)],
                   lruList = [''a''], shard_size = 66, hitCount = 0, missCount = 0 \<rparr>,
                 \<lparr> mu = True,
                   data = [(''b'', \<lparr> key = ''b'', val = StringV ''y'', entry_size = 66,
                                     expiry = 0 \<rparr>)],
                   lruList = [''b''], shard_size = 66, hitCount = 0, missCount = 0 \<rparr>,
                 newShard, newShard],
       totalSize = 132, totalHits = 0, totalMiss = 0, closed = 0, stopCh_closed = False \<rparr>
   = Returns
     \<lparr> config = \<lparr> MaxMemoryBytes = 100, ShardCount = 4, DefaultTTL = 0,
                     CleanupInterval = 1000000000 \<rparr>,
       shards = [\<lparr> mu = False, data = [], lruList = [], shard_size = 0,
                   hitCount = 0, missCount = 0 \<rparr>,
                 \<lparr> mu = True,
                   data = [(''b'', \<lparr> key = ''b'', val = StringV ''y'', entry_size = 66,
                                     expiry = 0 \<rparr>)],
                   lruList = [''b''], shard_size = 66, hitCount = 0, missCount = 0 \<rparr>,
                 newShard, newShard],
       totalSize = 66, totalHits = 0, totalMiss = 0, closed = 0, stopCh_closed = False \<rparr>"
proof -
  let ?mid = "\<lparr> config = \<lparr> MaxMemoryBytes = 100, ShardCount = 4, DefaultTTL = 0,
                     CleanupInterval = 1000000000 \<rparr>,
       shards = [\<lparr> mu = False,
                   data = [(''a'', \<lparr> key = ''a'', val = StringV ''x'', entry_size = 66,
                                     expiry = 0 \<rparr>)],
                   lruList = [''a''], shard_size = 66, hitCount = 0, missCount = 0 \<rparr>,
                 \<lparr> mu = True,
                   data = [(''b'', \<lparr> key = ''b'', val = StringV ''y'', entry_size = 66,
                                     expiry = 0 \<rparr>)],
                   lruList = [''b''], shard_size = 66, hitCount = 0, missCount = 0 \<rparr>,
                 newShard, newShard],
       totalSize = 132, totalHits = 0, totalMiss = 0, closed = 0, stopCh_closed = False \<rparr>"
  have a: "accounted ?mid"
    by (simp add: accounted_def total_accounted_def shard_wf_def shard_accounted_def newShard_def)
  have l: "length (shards ?mid) = nat (ShardCount (config ?mid))" by simp
  have o: "1 \<le> ShardCount (config ?mid)" by simp
  have n: "nat (shardsToEvict ?mid) = 1" by (simp add: shardsToEvict_def quo_def)
  have u: "\<forall>i < nat (shardsToEvict ?mid). \<not> mu (shards ?mid ! i)"
    unfolding n by simp
  have v: "\<not> totalSize ?mid \<le>s MaxMemoryBytes (config ?mid)"
    by (simp add: word_sle_eq)
  from evictIfNeeded_removes_tails [OF a l o u] v
  obtain c' where "evictIfNeeded ?mid = Returns c'" by blast
  moreover have "evictIfNeeded ?mid = Returns
     \<lparr> config = \<lparr> MaxMemoryBytes = 100, ShardCount = 4, DefaultTTL = 0,
                     CleanupInterval = 1000000000 \<rparr>,
       shards = [\<lparr> mu = False, data = [], lruList = [], shard_size = 0,
                   hitCount = 0, missCount = 0 \<rparr>,
                 \<lparr> mu = True,
                   data = [(''b'', \<lparr> key = ''b'', val = StringV ''y'', entry_size = 66,
                                     expiry = 0 \<rparr>)],
                   lruList = [''b''], shard_size = 66, hitCount = 0, missCount = 0 \<rparr>,
                 newShard, newShard],
       totalSize = 66, totalHits = 0, totalMiss = 0, closed = 0, stopCh_closed = False \<rparr>"
    by code_simp
  ultimately show ?thesis using a v by simp
qed

text \<open>
  C4 as stated fails on an empty shard. With four shards the check takes shard 0 only.
  After one \<^verbatim>\<open>Set\<close> of a key of shard 1 into a new cache with a budget of 10 bytes the
  size is 66, and the eviction check of that \<^verbatim>\<open>Set\<close> has removed nothing; run again
  on the cache that the \<^verbatim>\<open>Set\<close> left, it removes nothing either, as shard 0 has no
  entry.
\<close>

theorem evictIfNeeded_empty_shard_counterexample:
  "Set \<lparr> config = \<lparr> MaxMemoryBytes = 10, ShardCount = 4, DefaultTTL = 0,
                       CleanupInterval = 1000000000 \<rparr>,
         shards = [newShard, newShard, newShard, newShard],
         totalSize = 0, totalHits = 0, totalMiss = 0, closed = 0, stopCh_closed = False \<rparr>
     ''b'' (StringV ''x'') [] 5
   = Returns (None,
       \<lparr> config = \<lparr> MaxMemoryBytes = 10, ShardCount = 4, DefaultTTL = 0,
                       CleanupInterval = 1000000000 \<rparr>,
         shards = [newShard,
                   \<lparr> mu = False,
                     data = [(''b'', \<lparr> key = ''b'', val = StringV ''x'', entry_size = 66,
                                       expiry = 0 \<rparr>)],
                     lruList = [''b''], shard_size = 66, hitCount = 0, missCount = 0 \<rparr>,
                   newShard, newShard],
         totalSize = 66, totalHits = 0, totalMiss = 0, closed = 0, stopCh_closed = False \<rparr>) \<and>
   \<not> (66 :: int64) \<le>s 10 \<and>
   shardsToEvict
       \<lparr> config = \<lparr> MaxMemoryBytes = 10, ShardCount = 4, DefaultTTL = 0,
                       CleanupInterval = 1000000000 \<rparr>,
         shards = [newShard,
                   \<lparr> mu = False,
                     data = [(''b'', \<lparr> key = ''b'', val = StringV ''x'', entry_size = 66,
                                       expiry = 0 \<rparr>)],
                     lruList = [''b''], shard_size = 66, hitCount = 0, missCount = 0 \<rparr>,
                   newShard, newShard],
         totalSize = 66, totalHits = 0, totalMiss = 0, closed = 0, stopCh_closed = False \<rparr> = 1 \<and>
   evictIfNeeded
       \<lparr> config = \<lparr> MaxMemoryBytes = 10, ShardCount = 4, DefaultTTL = 0,
                       CleanupInterval = 1000000000 \<rparr>,
         shards = [newShard,
                   \<lparr> mu = False,
                     data = [(''b'', \<lparr> key = ''b'', val = StringV ''x'', entry_size = 66,
                                       expiry = 0 \<rparr>)],
                     lruList = [''b''], shard_size = 66, hitCount = 0, missCount = 0 \<rparr>,
                   newShard, newShard],
         totalSize = 66, totalHits = 0, totalMiss = 0, closed = 0, stopCh_closed = False \<rparr>
   = Returns
       \<lparr> config = \<lparr> MaxMemoryBytes = 10, ShardCount = 4, DefaultTTL = 0,
                       CleanupInterval = 1000000000 \<rparr>,
         shards = [newShard,
                   \<lparr> mu = False,
                     data = [(''b'', \<lparr> key = ''b'', val = StringV ''x'', entry_size = 66,
                                       expiry = 0 \<rparr>)],
                     lruList = [''b''], shard_size = 66, hitCount = 0, missCount = 0 \<rparr>,
                   newShard, newShard],
         totalSize = 66, totalHits = 0, totalMiss = 0, closed = 0, stopCh_closed = False \<rparr>"
  by code_simp

section \<open>The lock that Set holds\<close>

text \<open>
  C2 does not hold of the code. \<^verbatim>\<open>Set\<close> defers the unlock of the key's shard, so
  \<^verbatim>\<open>evictIfNeeded\<close> runs while that mutex is held. When the size is over the budget and
  the key's shard is one of those the check takes, \<^verbatim>\<open>evictFromShard\<close> locks the mutex
  a second time, and \<^verbatim>\<open>Set\<close> never returns. This happens in the repository's own
  \<^verbatim>\<open>TestSimpleEviction\<close> (2048 bytes, 4 shards, values of 300 bytes): the first six
  calls return, and the seventh, whose key is of shard 0, blocks. It also happens on the
  first \<^verbatim>\<open>Set\<close> into a cache of one shard whose budget is less than the entry.
\<close>

theorem Set_blocks_on_its_own_lock:
  "New (Some \<lparr> MaxMemoryBytes = 2048, ShardCount = 4, DefaultTTL = 0,
               CleanupInterval = 1000000000 \<rparr>)
   = Returns \<lparr> config = \<lparr> MaxMemoryBytes = 2048, ShardCount = 4, DefaultTTL = 0,
                            CleanupInterval = 1000000000 \<rparr>,
               shards = [newShard, newShard, newShard, newShard],
               totalSize = 0, totalHits = 0, totalMiss = 0, closed = 0,
               stopCh_closed = False \<rparr> \<and>
   run \<lparr> config = \<lparr> MaxMemoryBytes = 2048, ShardCount = 4, DefaultTTL = 0,
                       CleanupInterval = 1000000000 \<rparr>,
         shards = [newShard, newShard, newShard, newShard],
         totalSize = 0, totalHits = 0, totalMiss = 0, closed = 0, stopCh_closed = False \<rparr>
     [SetOp ''test_key_0'' (BytesV (replicate 300 0)) [] 1000,
      SetOp ''test_key_1'' (BytesV (replicate 300 0)) [] 1000,
      SetOp ''test_key_2'' (BytesV (replicate 300 0)) [] 1000,
      SetOp ''test_key_3'' (BytesV (replicate 300 0)) [] 1000,
      SetOp ''test_key_4'' (BytesV (replicate 300 0)) [] 1000,
      SetOp ''test_key_5'' (BytesV (replicate 300 0)) [] 1000]
   = Returns
       \<lparr> config = \<lparr> MaxMemoryBytes = 2048, ShardCount = 4, DefaultTTL = 0,
                       CleanupInterval = 1000000000 \<rparr>,
         shards =
           [newShard,
            \<lparr> mu = False,
              data = [(''test_key_1'', \<lparr> key = ''test_key_1'', val = BytesV (replicate 300 0),
                                         entry_size = 374, expiry = 0 \<rparr>),
                      (''test_key_5'', \<lparr> key = ''test_key_5'', val = BytesV (replicate 300 0),
                                         entry_size = 374, expiry = 0 \<rparr>)],
              lruList = [''test_key_5'', ''test_key_1''], shard_size = 748,
              hitCount = 0, missCount = 0 \<rparr>,
            \<lparr> mu = False,
              data = [(''test_key_0'', \<lparr> key = ''test_key_0'', val = BytesV (replicate 300 0),
                                         entry_size = 374, expiry = 0 \<rparr>),
                      (''test_key_4'', \<lparr> key = ''test_key_4'', val = BytesV (replicate 300 0),
                                         entry_size = 374, expiry = 0 \<rparr>)],
              lruList = [''test_key_4'', ''test_key_0''], shard_size = 748,
              hitCount = 0, missCount = 0 \<rparr>,
            \<lparr> mu = False,
              data = [(''test_key_3'', \<lparr> key = ''test_key_3'', val = BytesV (replicate 300 0),
                                         entry_size = 374, expiry = 0 \<rparr>)],
              lruList = [''test_key_3''], shard_size = 374,
              hitCount = 0, missCount = 0 \<rparr>],
         totalSize = 1870, totalHits = 0, totalMiss = 0, closed = 0, stopCh_closed = False \<rparr> \<and>
   Set \<lparr> config = \<lparr> MaxMemoryBytes = 2048, ShardCount = 4, DefaultTTL = 0,
                       CleanupInterval = 1000000000 \<rparr>,
         shards =
           [newShard,
            \<lparr> mu = False,
              data = [(''test_key_1'', \<lparr> key = ''test_key_1'', val = BytesV (replicate 300 0),
                                         entry_size = 374, expiry = 0 \<rparr>),
                      (''test_key_5'', \<lparr> key = ''test_key_5'', val = BytesV (replicate 300 0),
                                         entry_size = 374, expiry = 0 \<rparr>)],
              lruList = [''test_key_5'', ''test_key_1''], shard_size = 748,
              hitCount = 0, missCount = 0 \<rparr>,
            \<lparr> mu = False,
              data = [(''test_key_0'', \<lparr> key = ''test_key_0'', val = BytesV (replicate 300 0),
                                         entry_size = 374, expiry = 0 \<rparr>),
                      (''test_key_4'', \<lparr> key = ''test_key_4'', val = BytesV (replicate 300 0),
                                         entry_size = 374, expiry = 0 \<rparr>)],
              lruList = [''test_key_4'', ''test_key_0''], shard_size = 748,
              hitCount = 0, missCount = 0 \<rparr>,
            \<lparr> mu = False,
              data = [(''test_key_3'', \<lparr> key = ''test_key_3'', val = BytesV (replicate 300 0),
                                         entry_size = 374, expiry = 0 \<rparr>)],
              lruList = [''test_key_3''], shard_size = 374,
              hitCount = 0, missCount = 0 \<rparr>],
         totalSize = 1870, totalHits = 0, totalMiss = 0, closed = 0, stopCh_closed = False \<rparr>
     ''test_key_6'' (BytesV (replicate 300 0)) [] 1000
   = Blocks \<and>
   Set \<lparr> config = \<lparr> MaxMemoryBytes = 64, ShardCount = 1, DefaultTTL = 0,
                       CleanupInterval = 1000000000 \<rparr>,
         shards = [newShard],
         totalSize = 0, totalHits = 0, totalMiss = 0, closed = 0, stopCh_closed = False \<rparr>
     ''a'' (StringV ''x'') [] 5
   = Blocks"
  by code_simp

end
